theory Spec2Isabelle
  imports Complex_Main "HOL-Library.Sublist"
begin

unbundle bit_operations_syntax

text \<open>
  A shallow embedding of the services of MoodSpot that carry its logic: the
  \<open>RateLimiter\<close> (daily quota counters), the \<open>LocalStorageManager\<close> (quota-guarded
  writes), the \<open>MoodAnalysisService\<close> (classifier call, mock generator, fallback) and
  the \<open>MoodAdviceService\<close> (advice ranking, cache ids).  Each JavaScript method is a
  HOL function of the same name; object state is passed in and returned, exceptions are
  values, and what a method reads from its surroundings (clock, storage failures, random
  draws, the classifier's reply) is an explicit argument.  The definitions come first,
  the properties after them.
\<close>

section \<open>JavaScript values used by the services\<close>

text \<open>
  Numbers are modelled exactly: quota counters are integers (they only ever hold small
  whole numbers, which IEEE doubles represent exactly), scores and confidences are reals
  (the idealisation of the doubles the program computes with).  Strings are HOL strings.
  A thrown exception is a value: every \<open>throw\<close> of the source is a \<open>Throws\<close> branch of
  the model, carrying the \<open>message\<close> of the error object.
\<close>

datatype 'a outcome = Throws string | Returns 'a

text \<open>The result of a numeric expression that may be \<open>NaN\<close>.\<close>

datatype js_number = Number int | NaN | PosInfinity | NegInfinity

subsection \<open>Strings\<close>

text \<open>
  \<open>String.prototype.toLowerCase\<close> on the ASCII letters; every other character is left as
  it is (the mood and category names of the program are ASCII).
\<close>

definition toLowerCase_char :: "char \<Rightarrow> char" where
  "toLowerCase_char c =
     (case map_of (zip ''ABCDEFGHIJKLMNOPQRSTUVWXYZ'' ''abcdefghijklmnopqrstuvwxyz'') c of
        Some l \<Rightarrow> l
      | None \<Rightarrow> c)"

definition toLowerCase :: "string \<Rightarrow> string" where
  "toLowerCase s = map toLowerCase_char s"

text \<open>Decimal digits of a natural number, as \<open>String(n)\<close> prints them.\<close>

definition digit_char :: "nat \<Rightarrow> char" where
  "digit_char d = ''0123456789'' ! d"

function digits :: "nat \<Rightarrow> string" where
  "digits n = (if n < 10 then [digit_char n] else digits (n div 10) @ [digit_char (n mod 10)])"
  by pat_completeness auto
termination
  by (relation "measure id") auto

text \<open>
  \<open>x.toFixed(1)\<close>: the sign, then the integer \<open>n\<close> for which \<open>n / 10\<close> is closest to
  \<open>|x|\<close> (the larger one on a tie), printed with one digit after the point.  (Beyond
  \<open>10^21\<close> JavaScript switches to exponent notation; intensities are nowhere near.)
\<close>

definition toFixed1 :: "real \<Rightarrow> string" where
  "toFixed1 x =
     (let n = nat \<lfloor>\<bar>x\<bar> * 10 + 1 / 2\<rfloor>
      in (if x < 0 then ''-'' else '''') @ digits (n div 10) @ ''.'' @ [digit_char (n mod 10)])"

text \<open>\<open>String(i)\<close> for an integer.\<close>

definition show_int :: "int \<Rightarrow> string" where
  "show_int i = (if i < 0 then ''-'' @ digits (nat (- i)) else digits (nat i))"

text \<open>\<open>String.prototype.includes\<close>: the pattern occurs as a contiguous part.\<close>

fun string_includes :: "string \<Rightarrow> string \<Rightarrow> bool" where
  "string_includes [] pat = (pat = [])"
| "string_includes (c # cs) pat = (prefix pat (c # cs) \<or> string_includes cs pat)"

text \<open>\<open>String.prototype.trim\<close> for the ASCII white space characters.\<close>

definition is_space :: "char \<Rightarrow> bool" where
  "is_space c = (c \<in> set [CHR '' '', CHR 0x09, CHR 0x0A, CHR 0x0B, CHR 0x0C, CHR 0x0D])"

definition trim :: "string \<Rightarrow> string" where
  "trim s = rev (dropWhile is_space (rev (dropWhile is_space s)))"

text \<open>A missing or empty string is falsy.\<close>

definition truthy_string :: "string option \<Rightarrow> bool" where
  "truthy_string s = (case s of None \<Rightarrow> False | Some t \<Rightarrow> t \<noteq> [])"

text \<open>
  \<open>Object.prototype\<close> gives every plain object a handful of inherited properties.  A
  property read \<open>obj[key]\<close> on an object used as a table finds the table's own entry, or
  nothing (\<open>undefined\<close>), or, for these names, an inherited function or object that is
  truthy and is not a table entry.
\<close>

definition object_prototype_keys :: "string list" where
  "object_prototype_keys =
     [''constructor'', ''hasOwnProperty'', ''isPrototypeOf'', ''propertyIsEnumerable'',
      ''toLocaleString'', ''toString'', ''valueOf'', ''__proto__'',
      ''__defineGetter__'', ''__defineSetter__'', ''__lookupGetter__'',
      ''__lookupSetter__'']"

text \<open>The message of the \<open>TypeError\<close> for calling \<open>toLowerCase\<close> on \<open>undefined\<close>.\<close>

definition undefined_toLowerCase_message :: string where
  "undefined_toLowerCase_message =
     ''Cannot read properties of undefined (reading 'toLowerCase')''"

text \<open>
  What every mood result carries: the primary mood and the confidence.  The analysis
  service's results and the advice service's inputs both extend it.
\<close>

record mood_core =
  primaryMood :: string
  confidence :: real

section \<open>RateLimiter\<close>

subsection \<open>Data\<close>

record service_quota =
  used :: int
  limit :: int

record quota_record =
  date :: string
  services :: "string \<rightharpoonup> service_quota"
  resetTime :: string

text \<open>
  What \<open>localStorage.getItem(STORAGE_KEY)\<close> followed by \<open>JSON.parse\<close> can yield.  The
  key is written by \<open>saveQuotas\<close> only, so a parsable item is the image of
  \<open>this.quotas\<close> under \<open>JSON.stringify\<close>: a quota record, or \<open>null\<close>.
\<close>

datatype stored_item =
    NoItem                             \<comment> \<open>\<open>getItem\<close> returns \<open>null\<close> (or the empty string)\<close>
  | CorruptItem                        \<comment> \<open>\<open>JSON.parse\<close> throws\<close>
  | ParsedItem "quota_record option"   \<comment> \<open>\<open>None\<close> is the JSON value \<open>null\<close>\<close>

text \<open>The fields \<open>this.quotas\<close>, \<open>this.initialized\<close> and the browser's storage slot.\<close>

record rate_limiter =
  quotas :: "quota_record option"
  initialized :: bool
  localStorage :: stored_item

text \<open>
  What the limiter reads from its surroundings during one call: the two clock readings
  (\<open>getTodayString()\<close> is the UTC calendar day of \<open>new Date()\<close>, \<open>getNextMidnight()\<close>
  the ISO string of the next local midnight) and whether the storage calls throw.
\<close>

record limiter_env =
  getTodayString :: string
  getNextMidnight :: string
  getItemThrows :: bool
  setItemThrows :: bool

definition RATE_LIMITS_openai :: int where "RATE_LIMITS_openai = 50"
definition RATE_LIMITS_googlePlaces :: int where "RATE_LIMITS_googlePlaces = 250"
definition RATE_LIMITS_database :: int where "RATE_LIMITS_database = 1000"

text \<open>The constructor: \<open>quotas = null\<close>, \<open>initialized = false\<close>.\<close>

definition new_RateLimiter :: "stored_item \<Rightarrow> rate_limiter" where
  "new_RateLimiter item = \<lparr>quotas = None, initialized = False, localStorage = item\<rparr>"

subsection \<open>Operations\<close>

definition default_services :: "string \<rightharpoonup> service_quota" where
  "default_services =
     [''openai'' \<mapsto> \<lparr>used = 0, limit = RATE_LIMITS_openai\<rparr>,
      ''googlePlaces'' \<mapsto> \<lparr>used = 0, limit = RATE_LIMITS_googlePlaces\<rparr>,
      ''database'' \<mapsto> \<lparr>used = 0, limit = RATE_LIMITS_database\<rparr>]"

definition createDefaultQuotas :: "limiter_env \<Rightarrow> quota_record" where
  "createDefaultQuotas env =
     \<lparr>date = getTodayString env, services = default_services,
      resetTime = getNextMidnight env\<rparr>"

definition loadQuotas :: "limiter_env \<Rightarrow> rate_limiter \<Rightarrow> rate_limiter" where
  "loadQuotas env st =
     (if getItemThrows env then st\<lparr>quotas := Some (createDefaultQuotas env)\<rparr>
      else case localStorage st of
             NoItem \<Rightarrow> st\<lparr>quotas := Some (createDefaultQuotas env)\<rparr>
           | CorruptItem \<Rightarrow> st\<lparr>quotas := Some (createDefaultQuotas env)\<rparr>
           | ParsedItem q \<Rightarrow> st\<lparr>quotas := q\<rparr>)"

definition saveQuotas :: "limiter_env \<Rightarrow> rate_limiter \<Rightarrow> rate_limiter" where
  "saveQuotas env st =
     (if setItemThrows env then st else st\<lparr>localStorage := ParsedItem (quotas st)\<rparr>)"

definition resetDailyCounters :: "limiter_env \<Rightarrow> rate_limiter \<Rightarrow> rate_limiter" where
  "resetDailyCounters env st =
     saveQuotas env
       (st\<lparr>quotas := Some \<lparr>date = getTodayString env, services = default_services,
                            resetTime = getNextMidnight env\<rparr>\<rparr>)"

definition checkAndResetDaily :: "limiter_env \<Rightarrow> rate_limiter \<Rightarrow> rate_limiter" where
  "checkAndResetDaily env st =
     (case quotas st of
        None \<Rightarrow> resetDailyCounters env st
      | Some q \<Rightarrow> if date q \<noteq> getTodayString env then resetDailyCounters env st else st)"

definition initialize :: "limiter_env \<Rightarrow> rate_limiter \<Rightarrow> rate_limiter" where
  "initialize env st =
     (if initialized st then st
      else (checkAndResetDaily env (loadQuotas env st))\<lparr>initialized := True\<rparr>)"

text \<open>
  \<open>this.quotas.services[service]\<close> is a property read on a plain object: the service's
  own entry, \<open>undefined\<close>, or an inherited value with neither a \<open>used\<close> nor a \<open>limit\<close>
  number.
\<close>

datatype service_entry = Own service_quota | Inherited | Undefined

definition service_lookup :: "quota_record \<Rightarrow> string \<Rightarrow> service_entry" where
  "service_lookup q service =
     (case services q service of
        Some sq \<Rightarrow> Own sq
      | None \<Rightarrow> if service \<in> set object_prototype_keys then Inherited else Undefined)"

text \<open>
  Reading \<open>this.quotas.services\<close> while \<open>this.quotas\<close> is \<open>null\<close> raises a
  \<open>TypeError\<close>; its message is the engine's.
\<close>

definition null_quotas_message :: string where
  "null_quotas_message = ''Cannot read properties of null (reading 'services')''"

definition checkQuota ::
  "limiter_env \<Rightarrow> rate_limiter \<Rightarrow> string \<Rightarrow> bool outcome \<times> rate_limiter" where
  "checkQuota env st service =
     (let st1 = initialize env st in
      case quotas st1 of
        None \<Rightarrow> (Throws null_quotas_message, st1)
      | Some q \<Rightarrow>
          (case service_lookup q service of
             Undefined \<Rightarrow> (Returns False, st1)
           | Inherited \<Rightarrow> (Returns False, st1)   \<comment> \<open>\<open>undefined < undefined\<close>\<close>
           | Own sq \<Rightarrow> (Returns (used sq < limit sq), st1)))"

definition incrementUsage ::
  "limiter_env \<Rightarrow> rate_limiter \<Rightarrow> string \<Rightarrow> bool outcome \<times> rate_limiter" where
  "incrementUsage env st service =
     (let st1 = initialize env st in
      case quotas st1 of
        None \<Rightarrow> (Throws null_quotas_message, st1)
      | Some q \<Rightarrow>
          (case service_lookup q service of
             Undefined \<Rightarrow> (Returns False, st1)
           | Inherited \<Rightarrow>
               \<comment> \<open>\<open>undefined >= undefined\<close> is false; \<open>used\<close> becomes \<open>NaN\<close> on the
                   inherited object, which is not part of the record\<close>
               (Returns True, saveQuotas env st1)
           | Own sq \<Rightarrow>
               if used sq \<ge> limit sq then (Returns False, st1)
               else
                 (Returns True,
                  saveQuotas env
                    (st1\<lparr>quotas :=
                       Some (q\<lparr>services :=
                         (services q)(service \<mapsto> sq\<lparr>used := used sq + 1\<rparr>)\<rparr>)\<rparr>))))"

definition getRemainingQuota ::
  "limiter_env \<Rightarrow> rate_limiter \<Rightarrow> string \<Rightarrow> js_number outcome \<times> rate_limiter" where
  "getRemainingQuota env st service =
     (let st1 = initialize env st in
      case quotas st1 of
        None \<Rightarrow> (Throws null_quotas_message, st1)
      | Some q \<Rightarrow>
          (case service_lookup q service of
             Undefined \<Rightarrow> (Returns (Number 0), st1)
           | Inherited \<Rightarrow> (Returns NaN, st1)    \<comment> \<open>\<open>Math.max(0, undefined - undefined)\<close>\<close>
           | Own sq \<Rightarrow> (Returns (Number (max 0 (limit sq - used sq))), st1)))"

text \<open>
  \<open>getAllQuotas\<close>: one entry per own service with \<open>used\<close>, \<open>limit\<close>, \<open>remaining\<close> and
  the rounded \<open>percentage\<close> (\<open>Math.round\<close> rounds a half up; a zero limit divides by
  zero), and the record's reset time and date.
\<close>

record quota_info = service_quota +
  remaining :: int
  percentage :: js_number

record all_quotas =
  entries :: "string \<rightharpoonup> quota_info"
  all_resetTime :: string
  all_date :: string

definition quota_info_of :: "service_quota \<Rightarrow> quota_info" where
  "quota_info_of sq =
     \<lparr>used = used sq, limit = limit sq,
      remaining = limit sq - used sq,
      percentage =
        (if limit sq = 0 then
           (if used sq = 0 then NaN else if used sq > 0 then PosInfinity else NegInfinity)
         else Number \<lfloor>(real_of_int (used sq) / real_of_int (limit sq)) * 100 + 1 / 2\<rfloor>)\<rparr>"

definition getAllQuotas ::
  "limiter_env \<Rightarrow> rate_limiter \<Rightarrow> all_quotas outcome \<times> rate_limiter" where
  "getAllQuotas env st =
     (let st1 = initialize env st in
      case quotas st1 of
        None \<Rightarrow> (Throws null_quotas_message, st1)
      | Some q \<Rightarrow>
          (Returns \<lparr>entries = map_option quota_info_of \<circ> services q,
                    all_resetTime = resetTime q, all_date = date q\<rparr>, st1))"

definition forceReset :: "limiter_env \<Rightarrow> rate_limiter \<Rightarrow> rate_limiter" where
  "forceReset env st = resetDailyCounters env st"

text \<open>
  A sequence of \<open>incrementUsage\<close> calls, each with its own surroundings and service
  name; the returned booleans are dropped, the state is threaded through.
\<close>

fun increment_calls :: "(limiter_env \<times> string) list \<Rightarrow> rate_limiter \<Rightarrow> rate_limiter" where
  "increment_calls [] st = st"
| "increment_calls ((env, service) # calls) st =
     increment_calls calls (snd (incrementUsage env st service))"

text \<open>The counter the limiter currently holds for a service, if it holds one.\<close>

definition service_of :: "rate_limiter \<Rightarrow> string \<Rightarrow> service_quota option" where
  "service_of st service = (case quotas st of None \<Rightarrow> None | Some q \<Rightarrow> services q service)"

definition known_services :: "string list" where
  "known_services = [''openai'', ''googlePlaces'', ''database'']"

text \<open>The limiter right after its first initialization of a day with nothing stored.\<close>

definition fresh_day :: "limiter_env \<Rightarrow> rate_limiter" where
  "fresh_day env = initialize env (new_RateLimiter NoItem)"

text \<open>\<open>n\<close> consecutive \<open>incrementUsage\<close> calls for one service, with the returned values.\<close>

fun repeat_increment ::
  "nat \<Rightarrow> limiter_env \<Rightarrow> rate_limiter \<Rightarrow> string \<Rightarrow> bool outcome list \<times> rate_limiter" where
  "repeat_increment 0 env st service = ([], st)"
| "repeat_increment (Suc n) env st service =
     (case incrementUsage env st service of
        (r, st1) \<Rightarrow> (case repeat_increment n env st1 service of
                      (rs, st2) \<Rightarrow> (r # rs, st2)))"

text \<open>
  The invariant of an initialized limiter: it holds a record in which every known service
  has a counter that does not exceed its limit.
\<close>

definition quota_inv :: "rate_limiter \<Rightarrow> bool" where
  "quota_inv st =
     (initialized st \<and>
      (case quotas st of
         None \<Rightarrow> False
       | Some q \<Rightarrow> list_all (\<lambda>s. case services q s of None \<Rightarrow> False
                                   | Some sq \<Rightarrow> used sq \<le> limit sq) known_services))"

text \<open>A concrete day, used to run the operations on explicit inputs.\<close>

definition env_jan15 :: limiter_env where
  "env_jan15 =
     \<lparr>getTodayString = ''2024-01-15'', getNextMidnight = ''2024-01-16T00:00:00.000Z'',
      getItemThrows = False, setItemThrows = False\<rparr>"

definition env_jan16 :: limiter_env where
  "env_jan16 =
     \<lparr>getTodayString = ''2024-01-16'', getNextMidnight = ''2024-01-17T00:00:00.000Z'',
      getItemThrows = False, setItemThrows = False\<rparr>"

text \<open>
  The record of 15 January with the classifier counter at its limit, and a limiter that
  was initialized on that day, holds this record and has saved it.
\<close>

definition jan15_record :: quota_record where
  "jan15_record =
     \<lparr>date = ''2024-01-15'',
      services = default_services(''openai'' \<mapsto> \<lparr>used = 50, limit = 50\<rparr>),
      resetTime = ''2024-01-16T00:00:00.000Z''\<rparr>"

definition exhausted_openai :: rate_limiter where
  "exhausted_openai =
     \<lparr>quotas = Some jan15_record, initialized = True,
      localStorage = ParsedItem (Some jan15_record)\<rparr>"

section \<open>Mood analysis results\<close>

text \<open>
  A recommendation of an analysis result: \<open>{title, description, icon}\<close>.  The icon is an
  emoji, kept as its Unicode code points.
\<close>

record recommendation_card =
  title :: string
  description :: string
  icon :: "nat list"

text \<open>
  The \<open>metadata\<close> object: \<open>analyzeMood\<close> attaches \<open>{timestamp, imageSize, compressionRatio,
  processingTime}\<close>, the fallback \<open>{timestamp, error, isFallback: true}\<close>.  A property that
  the object does not have is \<open>None\<close>, or \<open>False\<close> for the marker.
\<close>

record metadata =
  timestamp :: string
  imageSize :: "real option"
  compressionRatio :: "real option"
  processingTime :: "int option"
  error :: "string option"
  isFallback :: bool

text \<open>
  An entry of the mock generator's table holds the four properties of \<open>mood_data\<close>; a
  result of \<open>analyzeMood\<close> may hold the further ones.  Absent properties are \<open>None\<close>, an
  absent \<open>isMockData\<close> marker is \<open>False\<close>.
\<close>

record mood_data = mood_core +
  description :: string
  recommendations :: "recommendation_card list"

record analysis_result = mood_data +
  processingTime :: "real option"
  isMockData :: bool
  timestamp :: "string option"
  businessCategories :: "string list option"
  metadata :: "metadata option"

section \<open>LocalStorageManager\<close>

subsection \<open>Data\<close>

text \<open>
  The object passed to \<open>saveSession\<close> and the row it stores: \<open>sessionId\<close>, \<open>timestamp\<close>
  and \<open>lastUpdated\<close> may be missing on the way in; everything else the object carries is
  \<open>session_fields\<close>.
\<close>

record 's session_record =
  sessionId :: "string option"
  timestamp :: "string option"
  lastUpdated :: "string option"
  session_fields :: 's

text \<open>The object passed to \<open>saveMoodEntry\<close> and the row it stores; \<open>entry_id\<close> is its
  \<open>id\<close> property.\<close>

record mood_entry =
  entry_id :: "string option"
  timestamp :: "string option"
  imageData :: "string option"
  imageDimensions :: "(real option \<times> real option) option"
  analysis :: "analysis_result option"
  sessionId :: "string option"

text \<open>
  The manager's connection flag (\<open>this.initialized && this.db\<close>), the two IndexedDB
  object stores it writes (keyed by \<open>sessionId\<close> and by \<open>id\<close>), and the \<open>localStorage\<close>
  items it keeps as a local cache: \<open>moodspot_session_cache\<close>, \<open>moodspot_mood_cache\<close> and
  \<open>moodspot_analysis_cache\<close>.
\<close>

record 's storage_manager =
  db_connected :: bool
  sessions :: "string \<rightharpoonup> 's session_record"
  moodHistory :: "string \<rightharpoonup> mood_entry"
  session_cache :: "'s session_record option"
  mood_cache :: "mood_entry list option"
  analysis_cache_item :: "(string \<rightharpoonup> analysis_result) option"

text \<open>
  The surroundings of one call: the limiter's readings, the failure (if any) of opening
  the database and of a \<open>put\<close> request, the clock, and the identifiers the two generators
  would produce.
\<close>

record storage_env =
  clock :: limiter_env
  openError :: "string option"
  putError :: "string option"
  nowISO :: string
  generateSessionId :: string
  generateId :: string

text \<open>The limiter singleton and the manager, the state every operation works on.\<close>

record 's stores =
  limiter :: rate_limiter
  manager :: "'s storage_manager"

subsection \<open>Operations\<close>

definition manager_initialize ::
  "storage_env \<Rightarrow> 's storage_manager \<Rightarrow> 's storage_manager outcome" where
  "manager_initialize env m =
     (if db_connected m then Returns m
      else case openError env of
             Some e \<Rightarrow> Throws e
           | None \<Rightarrow> Returns (m\<lparr>db_connected := True\<rparr>))"

definition checkDatabaseQuota ::
  "storage_env \<Rightarrow> rate_limiter \<Rightarrow> bool outcome \<times> rate_limiter" where
  "checkDatabaseQuota env rl =
     (case checkQuota (clock env) rl ''database'' of
        (Throws e, rl1) \<Rightarrow> (Throws e, rl1)
      | (Returns hasQuota, rl1) \<Rightarrow>
          if \<not> hasQuota then (Throws ''Daily database operation limit exceeded'', rl1)
          else incrementUsage (clock env) rl1 ''database'')"

definition saveSession ::
  "storage_env \<Rightarrow> 's stores \<Rightarrow> 's session_record \<Rightarrow>
     's session_record outcome \<times> 's stores" where
  "saveSession env st sessionData =
     (case manager_initialize env (manager st) of
        Throws e \<Rightarrow> (Throws e, st)
      | Returns m \<Rightarrow>
          (case checkDatabaseQuota env (limiter st) of
             (Throws e, rl) \<Rightarrow> (Throws e, \<lparr>limiter = rl, manager = m\<rparr>)
           | (Returns ok, rl) \<Rightarrow>
               if \<not> ok then
                 (Throws ''Database quota exceeded'', \<lparr>limiter = rl, manager = m\<rparr>)
               else
                 (let key = (if truthy_string (session_record.sessionId sessionData)
                             then the (session_record.sessionId sessionData)
                             else generateSessionId env);
                      sessionWithTimestamp =
                        sessionData\<lparr>session_record.sessionId := Some key,
                                     session_record.timestamp := Some (nowISO env),
                                     lastUpdated := Some (nowISO env)\<rparr>
                  in case putError env of
                       Some e \<Rightarrow> (Throws e, \<lparr>limiter = rl, manager = m\<rparr>)
                     | None \<Rightarrow>
                         (Returns sessionWithTimestamp,
                          \<lparr>limiter = rl,
                           manager = m\<lparr>sessions :=
                             (sessions m)(key \<mapsto> sessionWithTimestamp)\<rparr>\<rparr>))))"

definition saveMoodEntry ::
  "storage_env \<Rightarrow> 's stores \<Rightarrow> mood_entry \<Rightarrow> mood_entry outcome \<times> 's stores" where
  "saveMoodEntry env st moodData =
     (case manager_initialize env (manager st) of
        Throws e \<Rightarrow> (Throws e, st)
      | Returns m \<Rightarrow>
          (case checkDatabaseQuota env (limiter st) of
             (Throws e, rl) \<Rightarrow> (Throws e, \<lparr>limiter = rl, manager = m\<rparr>)
           | (Returns ok, rl) \<Rightarrow>
               if \<not> ok then
                 (Throws ''Database quota exceeded'', \<lparr>limiter = rl, manager = m\<rparr>)
               else
                 (let key = (if truthy_string (entry_id moodData) then the (entry_id moodData)
                             else generateId env);
                      moodWithId =
                        moodData\<lparr>entry_id := Some key,
                                  mood_entry.timestamp :=
                                    (if truthy_string (mood_entry.timestamp moodData)
                                     then mood_entry.timestamp moodData
                                     else Some (nowISO env))\<rparr>
                  in case putError env of
                       Some e \<Rightarrow> (Throws e, \<lparr>limiter = rl, manager = m\<rparr>)
                     | None \<Rightarrow>
                         (Returns moodWithId,
                          \<lparr>limiter = rl,
                           manager = m\<lparr>moodHistory :=
                             (moodHistory m)(key \<mapsto> moodWithId)\<rparr>\<rparr>))))"

definition saveMoodAnalysis ::
  "storage_env \<Rightarrow> 's stores \<Rightarrow> mood_entry \<Rightarrow> mood_entry outcome \<times> 's stores" where
  "saveMoodAnalysis env st moodData = saveMoodEntry env st moodData"

text \<open>
  The local cache in \<open>localStorage\<close>.  \<open>cacheImportantData\<close> is its only writer; the reads
  and writes are wrapped in \<open>try\<close>/\<open>catch\<close>, so a storage that throws changes nothing and
  reads as empty.
\<close>

definition cacheImportantData ::
  "storage_env \<Rightarrow> 's storage_manager \<Rightarrow> 's session_record option \<Rightarrow>
     mood_entry list option \<Rightarrow> 's storage_manager" where
  "cacheImportantData env m sessionData history =
     (if setItemThrows (clock env) then m
      else (let m1 = (case sessionData of
                        None \<Rightarrow> m
                      | Some s \<Rightarrow> m\<lparr>session_cache := Some s\<rparr>)
            in case history of
                 None \<Rightarrow> m1
               | Some h \<Rightarrow> m1\<lparr>mood_cache := Some (take 5 h)\<rparr>))"

definition getCachedSession ::
  "storage_env \<Rightarrow> 's storage_manager \<Rightarrow> 's session_record option" where
  "getCachedSession env m = (if getItemThrows (clock env) then None else session_cache m)"

definition getCachedMoodHistory :: "storage_env \<Rightarrow> 's storage_manager \<Rightarrow> mood_entry list" where
  "getCachedMoodHistory env m =
     (if getItemThrows (clock env) then []
      else case mood_cache m of None \<Rightarrow> [] | Some h \<Rightarrow> h)"

definition saveAnalysisCache ::
  "storage_env \<Rightarrow> 's storage_manager \<Rightarrow> (string \<rightharpoonup> analysis_result) \<Rightarrow> 's storage_manager" where
  "saveAnalysisCache env m cacheData =
     (if setItemThrows (clock env) then m else m\<lparr>analysis_cache_item := Some cacheData\<rparr>)"

definition getAnalysisCache ::
  "storage_env \<Rightarrow> 's storage_manager \<Rightarrow> (string \<rightharpoonup> analysis_result)" where
  "getAnalysisCache env m =
     (if getItemThrows (clock env) then Map.empty
      else case analysis_cache_item m of None \<Rightarrow> Map.empty | Some c \<Rightarrow> c)"

text \<open>What a failed write leaves behind: the same limiter, the same stores and caches.\<close>

definition untouched :: "'s stores \<Rightarrow> 's stores \<Rightarrow> bool" where
  "untouched st st' =
     (limiter st' = limiter st \<and>
      sessions (manager st') = sessions (manager st) \<and>
      moodHistory (manager st') = moodHistory (manager st) \<and>
      session_cache (manager st') = session_cache (manager st) \<and>
      mood_cache (manager st') = mood_cache (manager st) \<and>
      analysis_cache_item (manager st') = analysis_cache_item (manager st))"

text \<open>A limiter whose database counter has reached its limit, and a connected manager
  with empty stores.\<close>

definition exhausted_database :: rate_limiter where
  "exhausted_database =
     \<lparr>quotas = Some \<lparr>date = ''2024-01-15'',
                     services = default_services(''database'' \<mapsto> \<lparr>used = 1000, limit = 1000\<rparr>),
                     resetTime = ''2024-01-16T00:00:00.000Z''\<rparr>,
      initialized = True,
      localStorage = NoItem\<rparr>"

definition empty_manager :: "unit storage_manager" where
  "empty_manager =
     \<lparr>db_connected = True, sessions = Map.empty, moodHistory = Map.empty,
      session_cache = None, mood_cache = None, analysis_cache_item = None\<rparr>"

definition storage_env_jan15 :: storage_env where
  "storage_env_jan15 =
     \<lparr>clock = env_jan15, openError = None, putError = None,
      nowISO = ''2024-01-15T10:00:00.000Z'',
      generateSessionId = ''session_1705312800000_abc123def'',
      generateId = ''1705312800000_abc123def''\<rparr>"

definition sample_session :: "unit session_record" where
  "sample_session =
     \<lparr>session_record.sessionId = Some ''s1'', session_record.timestamp = None,
      lastUpdated = None, session_fields = ()\<rparr>"

definition sample_mood_entry :: mood_entry where
  "sample_mood_entry =
     \<lparr>entry_id = Some ''m1'', mood_entry.timestamp = None, imageData = None,
      imageDimensions = None, analysis = None, mood_entry.sessionId = None\<rparr>"

section \<open>MoodAnalysisService\<close>

subsection \<open>Configuration\<close>

definition MOOD_BUSINESS_MAPPING :: "(string \<times> string list) list" where
  "MOOD_BUSINESS_MAPPING =
     [(''happy'', [''restaurant'', ''amusement_park'', ''shopping_mall'', ''movie_theater'', ''park'']),
      (''excited'', [''amusement_park'', ''night_club'', ''bowling_alley'', ''movie_theater'', ''shopping_mall'']),
      (''calm'', [''spa'', ''park'', ''library'', ''cafe'', ''museum'']),
      (''peaceful'', [''park'', ''spa'', ''library'', ''church'', ''museum'']),
      (''anxious'', [''spa'', ''park'', ''cafe'', ''gym'', ''library'']),
      (''stressed'', [''spa'', ''gym'', ''park'', ''cafe'', ''massage'']),
      (''sad'', [''cafe'', ''library'', ''park'', ''movie_theater'', ''restaurant'']),
      (''angry'', [''gym'', ''park'', ''spa'', ''bowling_alley'', ''massage'']),
      (''tired'', [''cafe'', ''spa'', ''park'', ''restaurant'', ''massage'']),
      (''energetic'', [''gym'', ''amusement_park'', ''shopping_mall'', ''bowling_alley'', ''park'']),
      (''creative'', [''art_gallery'', ''museum'', ''library'', ''cafe'', ''bookstore'']),
      (''social'', [''restaurant'', ''bar'', ''movie_theater'', ''shopping_mall'', ''cafe'']),
      (''contemplative'', [''library'', ''museum'', ''park'', ''cafe'', ''church'']),
      (''playful'', [''amusement_park'', ''bowling_alley'', ''arcade'', ''park'', ''movie_theater''])]"

definition DEFAULT_BUSINESS_CATEGORIES :: "string list" where
  "DEFAULT_BUSINESS_CATEGORIES =
     [''restaurant'', ''cafe'', ''park'', ''shopping_mall'', ''movie_theater'']"

text \<open>
  \<open>getBusinessCategoriesForMood\<close>: the table entry of the normalized mood; failing that
  the first entry whose key contains the mood or is contained in it; failing that the
  default list.  The direct lookup is a property read on a plain object, so an inherited
  name yields a value that is not a category list: \<open>None\<close>.
\<close>

definition getBusinessCategoriesForMood :: "string \<Rightarrow> string list option" where
  "getBusinessCategoriesForMood moodLabel =
     (let normalizedMood = trim (toLowerCase moodLabel) in
      case map_of MOOD_BUSINESS_MAPPING normalizedMood of
        Some categories \<Rightarrow> Some categories
      | None \<Rightarrow>
          if normalizedMood \<in> set object_prototype_keys then None
          else
            (case find (\<lambda>(moodKey, categories).
                          string_includes normalizedMood moodKey \<or>
                          string_includes moodKey normalizedMood)
                    MOOD_BUSINESS_MAPPING of
               Some (moodKey, categories) \<Rightarrow> Some categories
             | None \<Rightarrow> Some DEFAULT_BUSINESS_CATEGORIES))"

subsection \<open>Data\<close>

text \<open>The canvas export; \<open>analyzeMood\<close> may also be handed \<open>null\<close>.\<close>

record export_data =
  dataUrl :: "string option"
  width :: "real option"
  height :: "real option"
  compressedSize :: "real option"
  compressionRatio :: "real option"

record analysis_service =
  apiKey :: "string option"
  isInitialized :: bool
  analysisCache :: "string \<rightharpoonup> analysis_result"

text \<open>The three singletons the service works with.\<close>

record 's world =
  stores :: "'s stores"
  moodAnalysisService :: analysis_service

text \<open>
  \<open>callOpenAIAPI\<close> performs the network exchange with the classifier and parses the
  reply.  The model takes the outcome of the exchange as given: one of the throw sites of
  \<open>callOpenAIAPI\<close>, or the validated analysis with its processing time.
\<close>

datatype parse_problem =
    SyntaxError string        \<comment> \<open>\<open>JSON.parse\<close> throws, with the engine's message\<close>
  | MissingPrimaryMood        \<comment> \<open>no string \<open>primaryMood\<close> in the parsed object\<close>
  | MissingDescription        \<comment> \<open>no string \<open>description\<close> in the parsed object\<close>

datatype classifier_failure =
    ApiError nat "string option"   \<comment> \<open>\<open>!response.ok\<close>: the status and \<open>errorData.error?.message\<close>\<close>
  | InvalidResponseFormat          \<comment> \<open>no \<open>choices[0].message\<close>\<close>
  | ParseError parse_problem       \<comment> \<open>the inner \<open>catch\<close>\<close>
  | OtherError string              \<comment> \<open>any other exception of the exchange, with its message\<close>

datatype classifier_reply = Failure classifier_failure | Success mood_data real

text \<open>
  The surroundings of one \<open>analyzeMood\<close> call.  \<open>getApiKey\<close> and \<open>isDevelopment\<close> read
  build-time and process variables and may throw where those do not exist; \<open>mathRandom i\<close>
  is the value of the \<open>i\<close>-th \<open>Math.random()\<close> call; \<open>dateNowDifference\<close> is
  \<open>Date.now() - Date.now()\<close>; \<open>analysisId\<close> is what \<open>generateId()\<close> produces.
\<close>

record analysis_env =
  storageEnv :: storage_env
  getApiKey :: "string option outcome"
  isDevelopment :: "bool outcome"
  classifierReply :: classifier_reply
  mathRandom :: "nat \<Rightarrow> real"
  dateNowDifference :: int
  analysisId :: string
  getSessionId :: "string outcome"

subsection \<open>The classifier call and its failures\<close>

definition parse_problem_message :: "parse_problem \<Rightarrow> string" where
  "parse_problem_message p =
     (case p of
        SyntaxError m \<Rightarrow> m
      | MissingPrimaryMood \<Rightarrow> ''Missing or invalid primaryMood field''
      | MissingDescription \<Rightarrow> ''Missing or invalid description field'')"

definition failure_message :: "classifier_failure \<Rightarrow> string" where
  "failure_message f =
     (case f of
        ApiError status m \<Rightarrow>
          ''OpenAI API error: '' @ digits status @ '' - '' @
            (if truthy_string m then the m else ''Unknown error'')
      | InvalidResponseFormat \<Rightarrow> ''Invalid response format from OpenAI API''
      | ParseError p \<Rightarrow> ''Failed to parse mood analysis response: '' @ parse_problem_message p
      | OtherError m \<Rightarrow> m)"

definition callOpenAIAPI :: "classifier_reply \<Rightarrow> analysis_result outcome" where
  "callOpenAIAPI reply =
     (case reply of
        Failure f \<Rightarrow> Throws (failure_message f)
      | Success d t \<Rightarrow>
          Returns \<lparr>primaryMood = primaryMood d, confidence = confidence d,
                   mood_data.description = mood_data.description d,
                   recommendations = recommendations d,
                   processingTime = Some t, isMockData = False,
                   analysis_result.timestamp = None, businessCategories = None,
                   metadata = None\<rparr>)"

subsection \<open>The mock generator\<close>

definition moodDatabase :: "(nat \<Rightarrow> real) \<Rightarrow> (string \<times> mood_data) list" where
  \<open>moodDatabase random =
     [(''happy'',
       \<lparr>primaryMood = ''happy'',
        confidence = 0.85 + random 0 * 0.1,
        mood_data.description =
          ''Your drawing radiates joy with bright colors and uplifting strokes.'',
        recommendations =
          [\<lparr>recommendation_card.title = ''Share Your Joy'',
           recommendation_card.description =
             ''Call a friend and share this positive energy with someone you care about.'',
           icon = [0x1F4DE]\<rparr>,
           \<lparr>recommendation_card.title = ''Celebrate This Moment'',
           recommendation_card.description =
             ''Take a photo or write in a gratitude journal to capture this happiness.'',
           icon = [0x1F4F8]\<rparr>,
           \<lparr>recommendation_card.title = ''Spread Positivity'',
           recommendation_card.description =
             ''Do something kind for someone else to multiply your joy.'',
           icon = [0x1F31F]\<rparr>]\<rparr>),
      (''sad'',
       \<lparr>primaryMood = ''sad'',
        confidence = 0.75 + random 1 * 0.15,
        mood_data.description =
          ''Your drawing shows gentle, melancholic tones suggesting you need comfort.'',
        recommendations =
          [\<lparr>recommendation_card.title = ''Gentle Self-Care'',
           recommendation_card.description =
             ''Make yourself a warm drink and wrap up in something cozy.'',
           icon = [0x2615]\<rparr>,
           \<lparr>recommendation_card.title = ''Connect with Support'',
           recommendation_card.description =
             ''Reach out to a trusted friend or family member for a caring conversation.'',
           icon = [0x1F917]\<rparr>,
           \<lparr>recommendation_card.title = ''Honor Your Feelings'',
           recommendation_card.description =
             ''Allow yourself to feel sad - it's okay and this emotion will pass.'',
           icon = [0x1F499]\<rparr>]\<rparr>),
      (''anxious'',
       \<lparr>primaryMood = ''anxious'',
        confidence = 0.78 + random 2 * 0.12,
        mood_data.description =
          ''Your drawing shows tension and worried energy in the lines and composition.'',
        recommendations =
          [\<lparr>recommendation_card.title = ''Deep Breathing'',
           recommendation_card.description =
             ''Try 4-7-8 breathing: inhale for 4, hold for 7, exhale for 8 counts.'',
           icon = [0x1FAC1]\<rparr>,
           \<lparr>recommendation_card.title = ''Grounding Exercise'',
           recommendation_card.description =
             ''Name 5 things you see, 4 you can touch, 3 you hear, 2 you smell, 1 you taste.'',
           icon = [0x1F331]\<rparr>,
           \<lparr>recommendation_card.title = ''Gentle Movement'',
           recommendation_card.description =
             ''Take a slow walk or do gentle stretches to release physical tension.'',
           icon = [0x1F6B6]\<rparr>]\<rparr>),
      (''calm'',
       \<lparr>primaryMood = ''calm'',
        confidence = 0.82 + random 3 * 0.08,
        mood_data.description =
          ''Your drawing displays peaceful, flowing lines suggesting inner tranquility.'',
        recommendations =
          [\<lparr>recommendation_card.title = ''Mindful Moment'',
           recommendation_card.description =
             ''Sit quietly and focus on your breath for 5 minutes to deepen this calm.'',
           icon = [0x1F9D8]\<rparr>,
           \<lparr>recommendation_card.title = ''Nature Connection'',
           recommendation_card.description =
             ''Step outside or look out a window to connect with natural beauty.'',
           icon = [0x1F33F]\<rparr>,
           \<lparr>recommendation_card.title = ''Peaceful Activity'',
           recommendation_card.description =
             ''Read something inspiring or listen to gentle music.'',
           icon = [0x1F4DA]\<rparr>]\<rparr>),
      (''creative'',
       \<lparr>primaryMood = ''creative'',
        confidence = 0.87 + random 4 * 0.08,
        mood_data.description =
          ''Your drawing shows artistic flair and imaginative expression.'',
        recommendations =
          [\<lparr>recommendation_card.title = ''Capture Ideas'',
           recommendation_card.description =
             ''Write down or sketch any creative inspirations while they're fresh.'',
           icon = [0x1F4A1]\<rparr>,
           \<lparr>recommendation_card.title = ''Explore Art'',
           recommendation_card.description =
             ''Try a new artistic medium or visit a gallery for inspiration.'',
           icon = [0x1F3A8]\<rparr>,
           \<lparr>recommendation_card.title = ''Creative Project'',
           recommendation_card.description =
             ''Start or continue a creative project that excites you.'',
           icon = [0x2728]\<rparr>]\<rparr>),
      (''energetic'',
       \<lparr>primaryMood = ''energetic'',
        confidence = 0.89 + random 5 * 0.06,
        mood_data.description =
          ''Your drawing pulses with dynamic energy and vibrant movement.'',
        recommendations =
          [\<lparr>recommendation_card.title = ''Physical Activity'',
           recommendation_card.description =
             ''Channel this energy into exercise, dancing, or active movement.'',
           icon = [0x1F483]\<rparr>,
           \<lparr>recommendation_card.title = ''Productive Tasks'',
           recommendation_card.description =
             ''Tackle that project or task you've been putting off.'',
           icon = [0x26A1]\<rparr>,
           \<lparr>recommendation_card.title = ''Social Energy'',
           recommendation_card.description =
             ''Connect with friends for an energizing activity or conversation.'',
           icon = [0x1F465]\<rparr>]\<rparr>),
      (''tired'',
       \<lparr>primaryMood = ''tired'',
        confidence = 0.73 + random 6 * 0.12,
        mood_data.description =
          ''Your drawing shows fatigue with heavy, weary strokes.'',
        recommendations =
          [\<lparr>recommendation_card.title = ''Rest Permission'',
           recommendation_card.description =
             ''Give yourself permission to rest without guilt - you deserve it.'',
           icon = [0x1F634]\<rparr>,
           \<lparr>recommendation_card.title = ''Gentle Restoration'',
           recommendation_card.description =
             ''Take a warm bath or shower to refresh your body and mind.'',
           icon = [0x1F6C1]\<rparr>,
           \<lparr>recommendation_card.title = ''Energy Foods'',
           recommendation_card.description =
             ''Eat something nourishing and drink plenty of water.'',
           icon = [0x1F34E]\<rparr>]\<rparr>),
      (''angry'',
       \<lparr>primaryMood = ''angry'',
        confidence = 0.84 + random 7 * 0.11,
        mood_data.description =
          ''Your drawing shows sharp, aggressive strokes indicating intense anger.'',
        recommendations =
          [\<lparr>recommendation_card.title = ''Safe Physical Release'',
           recommendation_card.description =
             ''Punch a pillow, do jumping jacks, or go for a vigorous run.'',
           icon = [0x1F94A]\<rparr>,
           \<lparr>recommendation_card.title = ''Cool Down Time'',
           recommendation_card.description =
             ''Take 10 deep breaths and count to 20 before responding.'',
           icon = [0x2744, 0xFE0F]\<rparr>,
           \<lparr>recommendation_card.title = ''Express Safely'',
           recommendation_card.description =
             ''Write about your anger or talk to someone you trust.'',
           icon = [0x270D, 0xFE0F]\<rparr>]\<rparr>),
      (''excited'',
       \<lparr>primaryMood = ''excited'',
        confidence = 0.91 + random 8 * 0.07,
        mood_data.description =
          ''Your drawing bursts with enthusiasm and anticipatory energy.'',
        recommendations =
          [\<lparr>recommendation_card.title = ''Channel Excitement'',
           recommendation_card.description =
             ''Use this energy to work on something you're passionate about.'',
           icon = [0x1F680]\<rparr>,
           \<lparr>recommendation_card.title = ''Share the Buzz'',
           recommendation_card.description =
             ''Tell someone about what's got you so excited!'',
           icon = [0x1F4E2]\<rparr>,
           \<lparr>recommendation_card.title = ''Plan Action'',
           recommendation_card.description =
             ''Make concrete plans to act on whatever is exciting you.'',
           icon = [0x1F4CB]\<rparr>]\<rparr>),
      (''peaceful'',
       \<lparr>primaryMood = ''peaceful'',
        confidence = 0.86 + random 9 * 0.09,
        mood_data.description =
          ''Your drawing emanates serenity with soft, harmonious lines.'',
        recommendations =
          [\<lparr>recommendation_card.title = ''Savor the Peace'',
           recommendation_card.description =
             ''Sit quietly and fully experience this beautiful sense of calm.'',
           icon = [0x1F54A, 0xFE0F]\<rparr>,
           \<lparr>recommendation_card.title = ''Meditation Time'',
           recommendation_card.description =
             ''Spend 10-15 minutes in peaceful meditation or prayer.'',
           icon = [0x1F9D8, 0x200D, 0x2640, 0xFE0F]\<rparr>,
           \<lparr>recommendation_card.title = ''Share Serenity'',
           recommendation_card.description =
             ''Be a calming presence for someone who might need it.'',
           icon = [0x262E, 0xFE0F]\<rparr>]\<rparr>),
      (''confident'',
       \<lparr>primaryMood = ''confident'',
        confidence = 0.88 + random 10 * 0.08,
        mood_data.description =
          ''Your drawing shows bold, decisive strokes reflecting strong self-assurance.'',
        recommendations =
          [\<lparr>recommendation_card.title = ''Take Bold Action'',
           recommendation_card.description =
             ''Use this confidence to tackle something challenging.'',
           icon = [0x1F4AA]\<rparr>,
           \<lparr>recommendation_card.title = ''Lead Others'',
           recommendation_card.description =
             ''Step up and offer leadership or guidance to someone.'',
           icon = [0x1F451]\<rparr>,
           \<lparr>recommendation_card.title = ''Set Big Goals'',
           recommendation_card.description =
             ''This is the perfect time to aim high and dream big.'',
           icon = [0x1F3AF]\<rparr>]\<rparr>),
      (''overwhelmed'',
       \<lparr>primaryMood = ''overwhelmed'',
        confidence = 0.81 + random 11 * 0.14,
        mood_data.description =
          ''Your drawing shows chaotic, overlapping lines suggesting you feel swamped.'',
        recommendations =
          [\<lparr>recommendation_card.title = ''Priority List'',
           recommendation_card.description =
             ''Write down everything, then pick just the top 3 most important items.'',
           icon = [0x1F4DD]\<rparr>,
           \<lparr>recommendation_card.title = ''Take a Break'',
           recommendation_card.description =
             ''Step away for 15 minutes - even overwhelm needs a pause.'',
           icon = [0x23F8, 0xFE0F]\<rparr>,
           \<lparr>recommendation_card.title = ''Ask for Help'',
           recommendation_card.description =
             ''Reach out to someone who can assist or just listen.'',
           icon = [0x1F198]\<rparr>]\<rparr>),
      (''lonely'',
       \<lparr>primaryMood = ''lonely'',
        confidence = 0.77 + random 12 * 0.13,
        mood_data.description =
          ''Your drawing has isolated elements suggesting you're feeling disconnected.'',
        recommendations =
          [\<lparr>recommendation_card.title = ''Reach Out'',
           recommendation_card.description =
             ''Send a text or make a call to someone you care about.'',
           icon = [0x1F4F1]\<rparr>,
           \<lparr>recommendation_card.title = ''Join Something'',
           recommendation_card.description =
             ''Look for a group, class, or community activity to join.'',
           icon = [0x1F465]\<rparr>,
           \<lparr>recommendation_card.title = ''Self-Compassion'',
           recommendation_card.description =
             ''Be gentle with yourself - loneliness is temporary and normal.'',
           icon = [0x1F49D]\<rparr>]\<rparr>),
      (''frustrated'',
       \<lparr>primaryMood = ''frustrated'',
        confidence = 0.85 + random 13 * 0.10,
        mood_data.description =
          ''Your drawing shows blocked, jagged energy indicating frustration.'',
        recommendations =
          [\<lparr>recommendation_card.title = ''Step Away'',
           recommendation_card.description =
             ''Take a break from whatever is frustrating you right now.'',
           icon = [0x1F6AA]\<rparr>,
           \<lparr>recommendation_card.title = ''Physical Release'',
           recommendation_card.description =
             ''Do some vigorous exercise to discharge the frustrated energy.'',
           icon = [0x1F3C3]\<rparr>,
           \<lparr>recommendation_card.title = ''New Approach'',
           recommendation_card.description =
             ''Try tackling the problem from a completely different angle.'',
           icon = [0x1F504]\<rparr>]\<rparr>),
      (''inspired'',
       \<lparr>primaryMood = ''inspired'',
        confidence = 0.93 + random 14 * 0.05,
        mood_data.description =
          ''Your drawing flows with creative inspiration and visionary energy.'',
        recommendations =
          [\<lparr>recommendation_card.title = ''Capture the Vision'',
           recommendation_card.description =
             ''Write down or sketch your inspired ideas immediately.'',
           icon = [0x1F4A1]\<rparr>,
           \<lparr>recommendation_card.title = ''Take Action'',
           recommendation_card.description =
             ''Start working on whatever is inspiring you - strike while the iron is hot!'',
           icon = [0x26A1]\<rparr>,
           \<lparr>recommendation_card.title = ''Share Inspiration'',
           recommendation_card.description =
             ''Tell others about your vision - inspiration is contagious.'',
           icon = [0x2728]\<rparr>]\<rparr>)]\<close>

text \<open>
  \<open>generateMockAnalysis\<close>.  Building the table draws 15 random numbers, in the order of
  the entries; the 16th draw picks the entry, the 17th the processing time.  Should the
  index miss the table (it cannot for a draw below 1), the object returned has no mood
  data: \<open>None\<close>.
\<close>

definition generateMockAnalysis :: "(nat \<Rightarrow> real) \<Rightarrow> string \<Rightarrow> analysis_result option" where
  "generateMockAnalysis random now =
     (let database = moodDatabase random;
          moodKeys = map fst database;
          randomIndex = \<lfloor>random 15 * real (length moodKeys)\<rfloor>
      in if 0 \<le> randomIndex \<and> randomIndex < int (length moodKeys) then
           (case map_of database (moodKeys ! nat randomIndex) of
              None \<Rightarrow> None
            | Some moodData \<Rightarrow>
                Some \<lparr>primaryMood = primaryMood moodData,
                      confidence = confidence moodData,
                      mood_data.description = mood_data.description moodData,
                      recommendations = recommendations moodData,
                      processingTime = Some (800 + random 16 * 400),
                      isMockData = True,
                      analysis_result.timestamp = Some now,
                      businessCategories = None,
                      metadata = None\<rparr>)
         else None)"

text \<open>The 15 moods of the classification prompt (\<open>validMoods\<close>).\<close>

definition validMoods :: "string list" where
  "validMoods =
     [''happy'', ''sad'', ''anxious'', ''calm'', ''creative'', ''energetic'', ''tired'',
      ''angry'', ''excited'', ''peaceful'', ''confident'', ''overwhelmed'', ''lonely'',
      ''frustrated'', ''inspired'']"

subsection \<open>The fallback\<close>

definition generateFallbackAnalysis :: "string \<Rightarrow> string \<Rightarrow> analysis_result" where
  \<open>generateFallbackAnalysis errorMessage now =
     \<lparr>primaryMood = ''calm'',
      confidence = 0.5,
      mood_data.description =
        ''We encountered an issue analyzing your drawing, but your creative expression is still valuable. Sometimes the act of drawing itself can be therapeutic.'',
      recommendations =
          [\<lparr>recommendation_card.title = ''Take a Deep Breath'',
           recommendation_card.description =
             ''Focus on slow, calming breaths to center yourself in this moment.'',
           icon = [0x1FAC1]\<rparr>,
           \<lparr>recommendation_card.title = ''Continue Creating'',
           recommendation_card.description =
             ''Keep expressing yourself through art - it's a healthy way to process emotions.'',
           icon = [0x1F3A8]\<rparr>,
           \<lparr>recommendation_card.title = ''Try Again Later'',
           recommendation_card.description =
             ''Technical issues happen. Feel free to draw again when you're ready.'',
           icon = [0x1F504]\<rparr>],
      processingTime = None,
      isMockData = False,
      analysis_result.timestamp = None,
      businessCategories = getBusinessCategoriesForMood ''calm'',
      metadata =
        Some \<lparr>metadata.timestamp = now, imageSize = None, compressionRatio = None,
              metadata.processingTime = None, error = Some errorMessage,
              isFallback = True\<rparr>\<rparr>\<close>

subsection \<open>The cache key\<close>

text \<open>
  \<open>hash & hash\<close> and \<open>hash << 5\<close> work on 32-bit signed integers: \<open>to_int32\<close> wraps an
  integer into that range.
\<close>

definition to_int32 :: "int \<Rightarrow> int" where
  "to_int32 x = (x + 2 ^ 31) mod 2 ^ 32 - 2 ^ 31"

text \<open>
  The sampling loop \<open>for (i = 0; i < imageData.length; i += step)\<close>.  The step is at
  least 1 for every non-empty string, and the loop does not run for the empty one.
\<close>

function hash_loop :: "string \<Rightarrow> nat \<Rightarrow> nat \<Rightarrow> int \<Rightarrow> int" where
  "hash_loop imageText step i hash =
     (if i < length imageText \<and> 0 < step then
        hash_loop imageText step (i + step)
          (to_int32 (to_int32 (hash * 32) - hash + int (of_char (imageText ! i))))
      else hash)"
  by pat_completeness auto
termination
  by (relation "measure (\<lambda>(imageText, step, i, hash). length imageText - i)") auto

definition generateCacheKey :: "string \<Rightarrow> string" where
  "generateCacheKey imageText =
     (let sampleSize = min 1000 (length imageText);
          step = length imageText div sampleSize;
          hash = hash_loop imageText step 0 0;
          hash = hash XOR int (length imageText)
      in ''mood_'' @ digits (nat \<bar>hash\<bar>))"

subsection \<open>\<open>analyzeMood\<close>\<close>

definition service_initialize ::
  "analysis_env \<Rightarrow> 's world \<Rightarrow> unit outcome \<times> 's world" where
  "service_initialize env w =
     (case getApiKey env of
        Throws e \<Rightarrow> (Throws e, w)
      | Returns key \<Rightarrow>
          (Returns (),
           w\<lparr>moodAnalysisService := (moodAnalysisService w)
                \<lparr>apiKey := key,
                 analysisCache := getAnalysisCache (storageEnv env) (manager (stores w)),
                 isInitialized := True\<rparr>\<rparr>))"

text \<open>
  \<open>storeAnalysisResult\<close> swallows every failure of building or saving the entry; what the
  attempt changed stays changed.
\<close>

definition storeAnalysisResult ::
  "analysis_env \<Rightarrow> 's world \<Rightarrow> analysis_result \<Rightarrow> export_data \<Rightarrow> 's world" where
  "storeAnalysisResult env w analysisResult exportData =
     (case getSessionId env of
        Throws e \<Rightarrow> w
      | Returns sid \<Rightarrow>
          (let moodEntry =
                 \<lparr>entry_id = Some (analysisId env),
                  mood_entry.timestamp = Some (nowISO (storageEnv env)),
                  imageData = dataUrl exportData,
                  imageDimensions = Some (width exportData, height exportData),
                  analysis = Some analysisResult,
                  mood_entry.sessionId = Some sid\<rparr>
           in w\<lparr>stores := snd (saveMoodEntry (storageEnv env) (stores w) moodEntry)\<rparr>))"

definition undefined_remaining_message :: string where
  "undefined_remaining_message =
     ''Cannot read properties of undefined (reading 'remaining')''"

definition quota_exceeded_message :: "quota_info \<Rightarrow> string" where
  "quota_exceeded_message info =
     ''Daily OpenAI quota exceeded ('' @ show_int (used info) @ ''/'' @
       show_int (limit info) @ ''). Please try again tomorrow.''"

text \<open>The classification step: the API with a key outside development, the mock
  generator otherwise.\<close>

definition classify ::
  "analysis_env \<Rightarrow> 's world \<Rightarrow> analysis_result option outcome \<times> 's world" where
  "classify env w =
     (let useMock = (Returns (generateMockAnalysis (mathRandom env)
                                (nowISO (storageEnv env))), w) in
      if truthy_string (apiKey (moodAnalysisService w)) then
        (case isDevelopment env of
           Throws e \<Rightarrow> (Throws e, w)
         | Returns True \<Rightarrow> useMock
         | Returns False \<Rightarrow>
             (case callOpenAIAPI (classifierReply env) of
                Throws e \<Rightarrow> (Throws e, w)
              | Returns analysisResult \<Rightarrow>
                  (case incrementUsage (clock (storageEnv env))
                          (limiter (stores w)) ''openai'' of
                     (Throws e, rl) \<Rightarrow> (Throws e, w\<lparr>stores := (stores w)\<lparr>limiter := rl\<rparr>\<rparr>)
                   | (Returns ok, rl) \<Rightarrow>
                       (Returns (Some analysisResult),
                        w\<lparr>stores := (stores w)\<lparr>limiter := rl\<rparr>\<rparr>))))
      else useMock)"

text \<open>The statements after the classification: metadata, business categories, the two
  caches, the local database.  (The remote save that follows is not awaited and swallows
  its failures.)\<close>

definition finish_analysis ::
  "analysis_env \<Rightarrow> 's world \<Rightarrow> analysis_result option \<Rightarrow> export_data \<Rightarrow> string \<Rightarrow>
     analysis_result outcome \<times> 's world" where
  "finish_analysis env w classified exportData cacheKey =
     (case classified of
        None \<Rightarrow> (Throws undefined_toLowerCase_message, w)
      | Some analysisResult \<Rightarrow>
          (let analysisResult = analysisResult
                 \<lparr>metadata :=
                    Some \<lparr>metadata.timestamp = nowISO (storageEnv env),
                          imageSize = compressedSize exportData,
                          compressionRatio = export_data.compressionRatio exportData,
                          metadata.processingTime = Some (dateNowDifference env),
                          error = None, isFallback = False\<rparr>\<rparr>;
               analysisResult = analysisResult
                 \<lparr>businessCategories :=
                    getBusinessCategoriesForMood (primaryMood analysisResult)\<rparr>;
               cache = (analysisCache (moodAnalysisService w))(cacheKey \<mapsto> analysisResult);
               w = w\<lparr>moodAnalysisService := (moodAnalysisService w)\<lparr>analysisCache := cache\<rparr>\<rparr>;
               w = w\<lparr>stores := (stores w)
                      \<lparr>manager := saveAnalysisCache (storageEnv env)
                                     (manager (stores w)) cache\<rparr>\<rparr>;
               w = storeAnalysisResult env w analysisResult exportData
           in (Returns analysisResult, w)))"

text \<open>The body of the \<open>try\<close> block.\<close>

definition analyze_attempt ::
  "analysis_env \<Rightarrow> 's world \<Rightarrow> export_data option \<Rightarrow>
     analysis_result outcome \<times> 's world" where
  "analyze_attempt env w exportData =
     (case checkQuota (clock (storageEnv env)) (limiter (stores w)) ''openai'' of
        (Throws e, rl) \<Rightarrow> (Throws e, w\<lparr>stores := (stores w)\<lparr>limiter := rl\<rparr>\<rparr>)
      | (Returns canMakeRequest, rl) \<Rightarrow>
          (case getAllQuotas (clock (storageEnv env)) rl of
             (Throws e, rl) \<Rightarrow> (Throws e, w\<lparr>stores := (stores w)\<lparr>limiter := rl\<rparr>\<rparr>)
           | (Returns quotaInfo, rl) \<Rightarrow>
               (let w = w\<lparr>stores := (stores w)\<lparr>limiter := rl\<rparr>\<rparr> in
                case entries quotaInfo ''openai'' of
                  None \<Rightarrow> (Throws undefined_remaining_message, w)
                | Some info \<Rightarrow>
                    if \<not> canMakeRequest then (Throws (quota_exceeded_message info), w)
                    else
                      (case exportData of
                         None \<Rightarrow> (Throws ''Invalid drawing data provided'', w)
                       | Some exported \<Rightarrow>
                           if \<not> truthy_string (dataUrl exported)
                           then (Throws ''Invalid drawing data provided'', w)
                           else
                             (let cacheKey = generateCacheKey (the (dataUrl exported)) in
                              case analysisCache (moodAnalysisService w) cacheKey of
                                Some cached \<Rightarrow> (Returns cached, w)
                              | None \<Rightarrow>
                                  (case classify env w of
                                     (Throws e, w) \<Rightarrow> (Throws e, w)
                                   | (Returns classified, w) \<Rightarrow>
                                       finish_analysis env w classified exported
                                         cacheKey))))))"

text \<open>
  \<open>analyzeMood\<close>: initialization outside the \<open>try\<close>, the attempt inside it, and the
  \<open>catch\<close> that rethrows an error whose message contains \<open>quota exceeded\<close> and turns every
  other one into the fallback analysis.
\<close>

definition analyzeMood ::
  "analysis_env \<Rightarrow> 's world \<Rightarrow> export_data option \<Rightarrow>
     analysis_result outcome \<times> 's world" where
  "analyzeMood env w exportData =
     (case (if isInitialized (moodAnalysisService w) then (Returns (), w)
            else service_initialize env w) of
        (Throws e, w) \<Rightarrow> (Throws e, w)
      | (Returns u, w) \<Rightarrow>
          (case analyze_attempt env w exportData of
             (Returns analysisResult, w) \<Rightarrow> (Returns analysisResult, w)
           | (Throws message, w) \<Rightarrow>
               if string_includes message ''quota exceeded'' then (Throws message, w)
               else (Returns (generateFallbackAnalysis message (nowISO (storageEnv env))),
                     w)))"

subsection \<open>Reference data and sample inputs\<close>

text \<open>
  The confidence bands of the mock table: for the entry built with the \<open>i\<close>-th draw, the
  base and the spread of \<open>base + Math.random() * spread\<close>.
\<close>

definition mock_bands :: "(nat \<times> real \<times> real) list" where
  "mock_bands =
     [(0, 0.85, 0.1), (1, 0.75, 0.15), (2, 0.78, 0.12), (3, 0.82, 0.08), (4, 0.87, 0.08),
      (5, 0.89, 0.06), (6, 0.73, 0.12), (7, 0.84, 0.11), (8, 0.91, 0.07), (9, 0.86, 0.09),
      (10, 0.88, 0.08), (11, 0.81, 0.14), (12, 0.77, 0.13), (13, 0.85, 0.10),
      (14, 0.93, 0.05)]"

definition sample_export :: export_data where
  "sample_export =
     \<lparr>dataUrl = Some ''data:image/png;base64,iVBORw0KGgo='', width = Some 400,
      height = Some 300, compressedSize = Some 1024, compressionRatio = Some 50\<rparr>"

definition empty_export :: export_data where
  "empty_export =
     \<lparr>dataUrl = None, width = None, height = None, compressedSize = None,
      compressionRatio = None\<rparr>"

text \<open>A reply that is prose instead of JSON, and a server error whose text mentions a
  quota.\<close>

definition non_json_failure :: classifier_failure where
  \<open>non_json_failure =
     ParseError (SyntaxError
       ''Unexpected token 'I', "I see a calm drawing" is not valid JSON'')\<close>

definition non_json_reply :: classifier_reply where
  "non_json_reply = Failure non_json_failure"

definition http_quota_reply :: classifier_reply where
  "http_quota_reply = Failure (ApiError 503 (Some ''upstream storage quota exceeded''))"

text \<open>The surroundings of a production call with an API key, and of a development call
  without one (the setting of the repository's tests).\<close>

definition api_env :: "classifier_reply \<Rightarrow> analysis_env" where
  "api_env reply =
     \<lparr>storageEnv = storage_env_jan15,
      getApiKey = Returns (Some ''sk-test''),
      isDevelopment = Returns False,
      classifierReply = reply,
      mathRandom = (\<lambda>i. 1 / 2),
      dateNowDifference = 0,
      analysisId = ''mood_1705312800000_abc123def'',
      getSessionId = Returns ''session_1705312800000_abc123def''\<rparr>"

definition test_env :: analysis_env where
  "test_env =
     (api_env non_json_reply)\<lparr>getApiKey := Returns None, isDevelopment := Returns True\<rparr>"

definition sample_world :: "string option \<Rightarrow> rate_limiter \<Rightarrow> unit world" where
  "sample_world key rl =
     \<lparr>stores = \<lparr>limiter = rl, manager = empty_manager\<rparr>,
      moodAnalysisService =
        \<lparr>apiKey = key, isInitialized = True, analysisCache = Map.empty\<rparr>\<rparr>"

text \<open>The marker of a fallback result, \<open>metadata.isFallback\<close>; a result without metadata
  does not carry it.\<close>

definition is_fallback :: "analysis_result \<Rightarrow> bool" where
  "is_fallback r = (case metadata r of None \<Rightarrow> False | Some m \<Rightarrow> isFallback m)"

section \<open>MoodAdviceService\<close>

subsection \<open>Data\<close>

text \<open>
  An advice item of the catalogue.  JavaScript objects are open: \<open>personalizeAdvice\<close> adds
  a \<open>relevanceScore\<close> property to its working copies and removes it again.  The property
  is an optional field, \<open>None\<close> when the object does not have it.
\<close>

record advice_item =
  category :: string
  title :: string
  description :: string
  actionSteps :: "string list"
  techniques :: "string list"
  duration :: string
  difficulty :: string
  relevanceScore :: "real option"

record emotion =
  name :: string
  intensity :: real

text \<open>
  The mood result the advice service reads: the primary mood and the confidence of a mood
  analysis result, and a list of emotions.
\<close>

record mood_result = mood_core +
  emotions :: "emotion list"

text \<open>An earlier session of the user; its \<open>advice\<close> property may be missing.\<close>

record session =
  advice :: "advice_item list option"

record recommendation =
  mood :: string
  intensity :: real
  emotions :: "emotion list"
  advice :: "advice_item list"
  personalizedMessage :: "string option"   \<comment> \<open>\<open>None\<close> is \<open>undefined\<close>\<close>
  timestamp :: string
  cacheId :: string

subsection \<open>The advice catalogue (\<open>initializeAdviceDatabase\<close>)\<close>

definition anxiety_advice :: "advice_item list" where
  \<open>anxiety_advice =
     [\<lparr>advice_item.category = ''anxiety'',
        advice_item.title = ''Deep Breathing Exercise'',
        advice_item.description = ''Calm your nervous system with controlled breathing techniques'',
        actionSteps =
          [''Find a quiet, comfortable space'',
           ''Sit or lie down with your back straight'',
           ''Breathe in slowly through your nose for 4 counts'',
           ''Hold your breath for 4 counts'',
           ''Exhale slowly through your mouth for 6 counts'',
           ''Repeat for 5-10 cycles''],
        techniques =
          [''4-7-8 breathing'',
           ''Box breathing'',
           ''Belly breathing'',
           ''Counted breathing''],
        duration = ''5-10 minutes'',
        difficulty = ''easy'',
        relevanceScore = None\<rparr>,
      \<lparr>advice_item.category = ''anxiety'',
        advice_item.title = ''Grounding Technique (5-4-3-2-1)'',
        advice_item.description = ''Use your senses to anchor yourself in the present moment'',
        actionSteps =
          [''Name 5 things you can see around you'',
           ''Name 4 things you can touch'',
           ''Name 3 things you can hear'',
           ''Name 2 things you can smell'',
           ''Name 1 thing you can taste''],
        techniques =
          [''Sensory grounding'',
           ''Mindful observation'',
           ''Present moment awareness''],
        duration = ''3-5 minutes'',
        difficulty = ''easy'',
        relevanceScore = None\<rparr>,
      \<lparr>advice_item.category = ''anxiety'',
        advice_item.title = ''Progressive Muscle Relaxation'',
        advice_item.description = ''Release physical tension to reduce mental anxiety'',
        actionSteps =
          [''Lie down in a comfortable position'',
           ''Start with your toes - tense for 5 seconds, then relax'',
           ''Move up through each muscle group'',
           ''Focus on the contrast between tension and relaxation'',
           ''End with your face and scalp muscles''],
        techniques =
          [''Body scan'',
           ''Tension release'',
           ''Mindful relaxation''],
        duration = ''15-20 minutes'',
        difficulty = ''medium'',
        relevanceScore = None\<rparr>,
      \<lparr>advice_item.category = ''anxiety'',
        advice_item.title = ''Calming Visualization'',
        advice_item.description = ''Create a mental safe space to reduce anxiety'',
        actionSteps =
          [''Close your eyes and take three deep breaths'',
           ''Imagine a place where you feel completely safe and calm'',
           ''Engage all your senses in this visualization'',
           ''Stay in this space for several minutes'',
           ''Return to this place whenever you feel anxious''],
        techniques =
          [''Guided imagery'',
           ''Safe place visualization'',
           ''Sensory imagination''],
        duration = ''10-15 minutes'',
        difficulty = ''medium'',
        relevanceScore = None\<rparr>]\<close>

definition sadness_advice :: "advice_item list" where
  \<open>sadness_advice =
     [\<lparr>advice_item.category = ''sadness'',
        advice_item.title = ''Gentle Movement'',
        advice_item.description = ''Light physical activity to naturally boost mood'',
        actionSteps =
          [''Step outside for fresh air'',
           ''Take a slow 10-15 minute walk'',
           ''Focus on your surroundings and nature'',
           ''Notice three beautiful things during your walk'',
           ''Practice gratitude for your body's ability to move''],
        techniques =
          [''Walking meditation'',
           ''Nature therapy'',
           ''Gratitude practice'',
           ''Mindful movement''],
        duration = ''10-20 minutes'',
        difficulty = ''easy'',
        relevanceScore = None\<rparr>,
      \<lparr>advice_item.category = ''sadness'',
        advice_item.title = ''Creative Expression'',
        advice_item.description = ''Channel emotions through artistic activities'',
        actionSteps =
          [''Choose a creative medium (drawing, writing, music)'',
           ''Set aside 15-30 minutes without distractions'',
           ''Express your feelings without judgment'',
           ''Focus on the process, not the outcome'',
           ''Reflect on what you created''],
        techniques =
          [''Art therapy'',
           ''Journaling'',
           ''Music therapy'',
           ''Creative flow''],
        duration = ''15-30 minutes'',
        difficulty = ''easy'',
        relevanceScore = None\<rparr>,
      \<lparr>advice_item.category = ''sadness'',
        advice_item.title = ''Connection and Support'',
        advice_item.description = ''Reach out to others for emotional support'',
        actionSteps =
          [''Identify someone you trust and feel comfortable with'',
           ''Reach out via call, text, or in person'',
           ''Share how you're feeling honestly'',
           ''Ask for a listening ear or gentle company'',
           ''Accept offers of support gracefully''],
        techniques =
          [''Social support'',
           ''Vulnerability practice'',
           ''Communication skills''],
        duration = ''20-60 minutes'',
        difficulty = ''medium'',
        relevanceScore = None\<rparr>,
      \<lparr>advice_item.category = ''sadness'',
        advice_item.title = ''Self-Compassion Practice'',
        advice_item.description = ''Treat yourself with kindness during difficult times'',
        actionSteps =
          [''Place your hand on your heart'',
           ''Acknowledge that you're suffering right now'',
           ''Remind yourself that suffering is part of human experience'',
           ''Offer yourself the same kindness you'd give a good friend'',
           ''Speak to yourself with gentle, caring words''],
        techniques =
          [''Self-compassion meditation'',
           ''Loving-kindness practice'',
           ''Inner dialogue work''],
        duration = ''10-15 minutes'',
        difficulty = ''medium'',
        relevanceScore = None\<rparr>]\<close>

definition stress_advice :: "advice_item list" where
  \<open>stress_advice =
     [\<lparr>advice_item.category = ''stress'',
        advice_item.title = ''Quick Stress Reset'',
        advice_item.description = ''Immediate techniques to reduce stress in the moment'',
        actionSteps =
          [''Stop what you're doing and take a pause'',
           ''Take 5 deep, slow breaths'',
           ''Drop your shoulders and relax your jaw'',
           ''Shake out your hands and arms'',
           ''Remind yourself: "This feeling will pass"''],
        techniques =
          [''Pause technique'',
           ''Body awareness'',
           ''Stress interruption''],
        duration = ''2-5 minutes'',
        difficulty = ''easy'',
        relevanceScore = None\<rparr>,
      \<lparr>advice_item.category = ''stress'',
        advice_item.title = ''Time Management Technique'',
        advice_item.description = ''Organize tasks to reduce overwhelming feelings'',
        actionSteps =
          [''Write down everything on your mind'',
           ''Categorize tasks as urgent, important, or neither'',
           ''Choose only 3 priority items for today'',
           ''Break large tasks into smaller, manageable steps'',
           ''Schedule specific times for each priority task''],
        techniques =
          [''Priority matrix'',
           ''Task breakdown'',
           ''Time blocking''],
        duration = ''15-20 minutes'',
        difficulty = ''medium'',
        relevanceScore = None\<rparr>,
      \<lparr>advice_item.category = ''stress'',
        advice_item.title = ''Mindful Stress Release'',
        advice_item.description = ''Use mindfulness to observe and release stress'',
        actionSteps =
          [''Sit comfortably and close your eyes'',
           ''Notice where you feel stress in your body'',
           ''Breathe into those areas without trying to change them'',
           ''Observe the stress with curiosity, not judgment'',
           ''Imagine breathing out the tension with each exhale''],
        techniques =
          [''Body scan meditation'',
           ''Mindful breathing'',
           ''Tension awareness''],
        duration = ''10-15 minutes'',
        difficulty = ''medium'',
        relevanceScore = None\<rparr>,
      \<lparr>advice_item.category = ''stress'',
        advice_item.title = ''Physical Stress Release'',
        advice_item.description = ''Use movement to discharge stress energy'',
        actionSteps =
          [''Do 10 jumping jacks or run in place for 30 seconds'',
           ''Stretch your arms overhead and to each side'',
           ''Roll your shoulders backward 10 times'',
           ''Gently massage your temples and neck'',
           ''Take 5 deep breaths to settle''],
        techniques =
          [''Exercise therapy'',
           ''Stretching'',
           ''Self-massage'',
           ''Energy discharge''],
        duration = ''5-10 minutes'',
        difficulty = ''easy'',
        relevanceScore = None\<rparr>]\<close>

definition happiness_advice :: "advice_item list" where
  \<open>happiness_advice =
     [\<lparr>advice_item.category = ''happiness'',
        advice_item.title = ''Gratitude Amplification'',
        advice_item.description = ''Deepen and extend your positive feelings'',
        actionSteps =
          [''Write down 3 specific things you're grateful for right now'',
           ''For each item, write why it matters to you'',
           ''Share your gratitude with someone else'',
           ''Take a moment to really feel the appreciation'',
           ''Set a reminder to practice gratitude daily''],
        techniques =
          [''Gratitude journaling'',
           ''Appreciation practice'',
           ''Positive sharing''],
        duration = ''10-15 minutes'',
        difficulty = ''easy'',
        relevanceScore = None\<rparr>,
      \<lparr>advice_item.category = ''happiness'',
        advice_item.title = ''Joy Sharing'',
        advice_item.description = ''Spread your positive energy to others'',
        actionSteps =
          [''Think of someone who would appreciate hearing from you'',
           ''Send them a message sharing something positive'',
           ''Compliment a stranger or do a small act of kindness'',
           ''Share your good mood through a smile or laugh'',
           ''Plan something fun to do with others''],
        techniques =
          [''Social connection'',
           ''Kindness practice'',
           ''Positive communication''],
        duration = ''15-30 minutes'',
        difficulty = ''easy'',
        relevanceScore = None\<rparr>,
      \<lparr>advice_item.category = ''happiness'',
        advice_item.title = ''Savoring Practice'',
        advice_item.description = ''Fully experience and extend positive moments'',
        actionSteps =
          [''Pause and notice what's making you happy right now'',
           ''Engage all your senses in the experience'',
           ''Take a mental photograph of this moment'',
           ''Share the experience with someone you care about'',
           ''Write about it to remember later''],
        techniques =
          [''Mindful savoring'',
           ''Present moment awareness'',
           ''Memory creation''],
        duration = ''5-10 minutes'',
        difficulty = ''easy'',
        relevanceScore = None\<rparr>,
      \<lparr>advice_item.category = ''happiness'',
        advice_item.title = ''Energy Investment'',
        advice_item.description = ''Use your positive energy for meaningful activities'',
        actionSteps =
          [''Choose an activity that aligns with your values'',
           ''Set a small, achievable goal for today'',
           ''Take action while your energy is high'',
           ''Notice how good it feels to make progress'',
           ''Celebrate your accomplishment''],
        techniques =
          [''Goal setting'',
           ''Value-based action'',
           ''Achievement recognition''],
        duration = ''30-60 minutes'',
        difficulty = ''medium'',
        relevanceScore = None\<rparr>]\<close>

definition mixed_advice :: "advice_item list" where
  \<open>mixed_advice =
     [\<lparr>advice_item.category = ''mixed'',
        advice_item.title = ''Emotional Check-In'',
        advice_item.description = ''Understand and validate complex emotions'',
        actionSteps =
          [''Take a few deep breaths and center yourself'',
           ''Name each emotion you're experiencing'',
           ''Rate the intensity of each emotion (1-10)'',
           ''Ask yourself what each emotion might be telling you'',
           ''Practice accepting all emotions without judgment''],
        techniques =
          [''Emotional awareness'',
           ''Mindful observation'',
           ''Self-validation''],
        duration = ''10-15 minutes'',
        difficulty = ''medium'',
        relevanceScore = None\<rparr>,
      \<lparr>advice_item.category = ''mixed'',
        advice_item.title = ''Balanced Response'',
        advice_item.description = ''Address multiple emotions with balanced techniques'',
        actionSteps =
          [''Choose one calming technique for difficult emotions'',
           ''Choose one energizing technique for positive emotions'',
           ''Alternate between both approaches'',
           ''Notice how your emotional state shifts'',
           ''Adjust your approach based on what feels most needed''],
        techniques =
          [''Emotional regulation'',
           ''Adaptive coping'',
           ''Flexible response''],
        duration = ''15-20 minutes'',
        difficulty = ''medium'',
        relevanceScore = None\<rparr>]\<close>

definition anger_advice :: "advice_item list" where
  \<open>anger_advice =
     [\<lparr>advice_item.category = ''anger'',
        advice_item.title = ''Cooling Down Technique'',
        advice_item.description = ''Safely discharge anger energy'',
        actionSteps =
          [''Remove yourself from the triggering situation if possible'',
           ''Count slowly from 1 to 10, breathing deeply'',
           ''Do vigorous exercise for 5-10 minutes'',
           ''Write about your feelings without censoring'',
           ''Wait before responding or making decisions''],
        techniques =
          [''Anger management'',
           ''Physical release'',
           ''Emotional processing''],
        duration = ''10-20 minutes'',
        difficulty = ''easy'',
        relevanceScore = None\<rparr>]\<close>

definition fear_advice :: "advice_item list" where
  \<open>fear_advice =
     [\<lparr>advice_item.category = ''fear'',
        advice_item.title = ''Courage Building'',
        advice_item.description = ''Face fears with gradual, supported steps'',
        actionSteps =
          [''Identify what specifically you're afraid of'',
           ''Break the fear into smaller, manageable parts'',
           ''Take one small step toward facing the fear'',
           ''Use breathing techniques to stay calm'',
           ''Celebrate your courage in taking any step forward''],
        techniques =
          [''Gradual exposure'',
           ''Fear analysis'',
           ''Courage practice''],
        duration = ''15-30 minutes'',
        difficulty = ''medium'',
        relevanceScore = None\<rparr>]\<close>

definition adviceDatabase :: "string \<rightharpoonup> advice_item list" where
  "adviceDatabase =
     [''anxiety'' \<mapsto> anxiety_advice,
      ''sadness'' \<mapsto> sadness_advice,
      ''stress'' \<mapsto> stress_advice,
      ''happiness'' \<mapsto> happiness_advice,
      ''mixed'' \<mapsto> mixed_advice,
      ''anger'' \<mapsto> anger_advice,
      ''fear'' \<mapsto> fear_advice]"

subsection \<open>Operations\<close>

definition getAdviceByCategory :: "string \<Rightarrow> advice_item list" where
  "getAdviceByCategory cat =
     (case adviceDatabase (toLowerCase cat) of Some items \<Rightarrow> items | None \<Rightarrow> [])"

text \<open>The filter of \<open>removeDuplicateAdvice\<close>, with the set \<open>seen\<close> it fills as it goes.\<close>

definition advice_key :: "advice_item \<Rightarrow> string" where
  "advice_key item = advice_item.category item @ ''-'' @ advice_item.title item"

fun remove_seen :: "string set \<Rightarrow> advice_item list \<Rightarrow> advice_item list" where
  "remove_seen seen [] = []"
| "remove_seen seen (item # items) =
     (if advice_key item \<in> seen then remove_seen seen items
      else item # remove_seen (insert (advice_key item) seen) items)"

definition removeDuplicateAdvice :: "advice_item list \<Rightarrow> advice_item list" where
  "removeDuplicateAdvice advice_items = remove_seen {} advice_items"

definition calculateRelevanceScore ::
  "advice_item \<Rightarrow> mood_result \<Rightarrow> session list \<Rightarrow> real" where
  "calculateRelevanceScore adviceItem moodResult userHistory =
     (let score = 0.5;
          score = (if advice_item.category adviceItem = toLowerCase (primaryMood moodResult)
                   then score + 0.3 else score);
          score = foldl (\<lambda>score emotion.
                     if advice_item.category adviceItem = toLowerCase (name emotion)
                     then score + emotion.intensity emotion * 0.2 else score)
                   score (mood_result.emotions moodResult);
          score = (if confidence moodResult > 0.7 \<and> difficulty adviceItem = ''easy''
                   then score + 0.1
                   else if confidence moodResult < 0.5 \<and> difficulty adviceItem = ''medium''
                   then score + 0.1 else score);
          score = (if length userHistory > 0 then
                     (let hasUsedSimilar =
                        list_ex (\<lambda>session.
                          case session.advice session of
                            None \<Rightarrow> False
                          | Some used_items \<Rightarrow>
                              list_ex (\<lambda>used_item. advice_item.category used_item
                                          = advice_item.category adviceItem) used_items)
                          userHistory
                      in if hasUsedSimilar then score + 0.15 else score)
                   else score)
      in min score 1.0)"

text \<open>
  The comparator \<open>(a, b) => b.relevanceScore - a.relevanceScore\<close> under the stable
  \<open>Array.prototype.sort\<close>: descending scores, ties in their earlier order.  Every element
  that is sorted has just been given a score.
\<close>

definition score_of :: "advice_item \<Rightarrow> real" where
  "score_of item = (case relevanceScore item of Some s \<Rightarrow> s | None \<Rightarrow> 0)"

definition sort_by_relevance :: "advice_item list \<Rightarrow> advice_item list" where
  "sort_by_relevance items = sort_key (\<lambda>item. - score_of item) items"

definition personalizeAdvice ::
  "advice_item list \<Rightarrow> mood_result \<Rightarrow> session list \<Rightarrow> advice_item list" where
  "personalizeAdvice advice_items moodResult userHistory =
     (let personalizedAdvice =
            map (\<lambda>item. item\<lparr>relevanceScore :=
                   Some (calculateRelevanceScore item moodResult userHistory)\<rparr>) advice_items;
          personalizedAdvice = sort_by_relevance personalizedAdvice;
          personalizedAdvice =
            (if confidence moodResult > 0.8
             then filter (\<lambda>item. difficulty item = ''easy'' \<or>
                                  advice_item.category item = ''immediate_relief'')
                    personalizedAdvice
             else personalizedAdvice)
      in map (\<lambda>item. item\<lparr>relevanceScore := None\<rparr>) (take 6 personalizedAdvice))"

text \<open>
  The message templates.  \<open>messages[moodName]\<close> is a property read on a plain object, so
  besides the four own keys it finds, for a name inherited from \<open>Object.prototype\<close>, a
  truthy value that is not an array of strings: its element \<open>0\<close> is \<open>undefined\<close>.
\<close>

definition messages :: "string \<rightharpoonup> string list" where
  \<open>messages =
     [''anxiety'' \<mapsto>
        [''I can see you're feeling anxious right now. These techniques can help calm your nervous system.'',
         ''Anxiety is challenging, but you have the strength to work through it. Let's start with some grounding exercises.'',
         ''Your feelings are valid. Here are some proven methods to help ease your anxiety.''],
      ''sadness'' \<mapsto>
        [''I notice you're going through a difficult time. These gentle activities can help lift your spirits.'',
         ''It's okay to feel sad. These suggestions focus on small, manageable steps toward feeling better.'',
         ''Your emotions matter. Let's explore some nurturing ways to support yourself right now.''],
      ''stress'' \<mapsto>
        [''You seem to be under a lot of pressure. These stress-relief techniques can help you find some calm.'',
         ''Stress can be overwhelming, but these methods can help you regain your sense of balance.'',
         ''Let's work on releasing some of that tension with these proven stress-reduction techniques.''],
      ''happiness'' \<mapsto>
        [''It's wonderful that you're feeling positive! Here are ways to maintain and share this good energy.'',
         ''Your happiness is beautiful. These suggestions can help you sustain and spread these positive feelings.'',
         ''Great to see you in a good mood! Let's explore ways to keep this positivity flowing.'']]\<close>

definition default_messages :: "string list" where
  \<open>default_messages =
     [''I'm here to support you through whatever you're feeling right now.'',
      ''Every emotion has value. Let's find some helpful techniques for your current state.'',
      ''You're taking a positive step by seeking support. Here are some personalized suggestions.'']\<close>

text \<open>
  \<open>random\<close> is the value of the one \<open>Math.random()\<close> call.  An index outside the array
  reads \<open>undefined\<close>.
\<close>

definition generatePersonalizedMessage ::
  "real \<Rightarrow> mood_result \<Rightarrow> session list \<Rightarrow> string option outcome" where
  "generatePersonalizedMessage random moodResult userHistory =
     (let moodName = toLowerCase (primaryMood moodResult) in
      case messages moodName of
        None \<Rightarrow>
          if moodName \<in> set object_prototype_keys then
            (if length userHistory > 2 then Throws undefined_toLowerCase_message
             else Returns None)
          else
            (if length userHistory > 2 then
               Returns (Some (''Welcome back! Based on your recent sessions, '' @
                              toLowerCase (default_messages ! 0)))
             else
               (let i = \<lfloor>random * real (length default_messages)\<rfloor> in
                Returns (if 0 \<le> i \<and> i < int (length default_messages)
                         then Some (default_messages ! nat i) else None)))
      | Some moodMessages \<Rightarrow>
          if length userHistory > 2 then
            Returns (Some (''Welcome back! Based on your recent sessions, '' @
                           toLowerCase (moodMessages ! 0)))
          else
            (let i = \<lfloor>random * real (length moodMessages)\<rfloor> in
             Returns (if 0 \<le> i \<and> i < int (length moodMessages)
                      then Some (moodMessages ! nat i) else None)))"

text \<open>The characters the regular expression \<open>/[^a-zA-Z0-9:,-]/g\<close> keeps.\<close>

definition cache_id_char :: "char \<Rightarrow> bool" where
  "cache_id_char c =
     (c \<in> set ''abcdefghijklmnopqrstuvwxyzABCDEFGHIJKLMNOPQRSTUVWXYZ0123456789:,-'')"

text \<open>\<open>Array.prototype.join\<close> with a separator.\<close>

fun join :: "string \<Rightarrow> string list \<Rightarrow> string" where
  "join sep [] = ''''"
| "join sep [s] = s"
| "join sep (s # t # ss) = s @ sep @ join sep (t # ss)"

definition generateCacheId :: "'a mood_result_scheme \<Rightarrow> string" where
  "generateCacheId moodResult =
     (let emotionString =
            join '','' (map (\<lambda>e. name e @ '':'' @ toFixed1 (emotion.intensity e))
                          (mood_result.emotions moodResult))
      in filter cache_id_char (primaryMood moodResult @ ''-'' @ emotionString))"

text \<open>
  \<open>getAdviceForMood\<close>.  \<open>now\<close> is \<open>new Date()\<close>, \<open>random\<close> the draw used for the message.
  The recommendation is also written to a cache in \<open>localStorage\<close>; that write is wrapped
  in \<open>try\<close>/\<open>catch\<close> and does not touch the value returned, so it is left out.
\<close>

definition relevant_advice :: "mood_result \<Rightarrow> advice_item list" where
  "relevant_advice moodResult =
     foldl (\<lambda>relevantAdvice emotion.
              if emotion.intensity emotion > 0.3 \<and> name emotion \<noteq> primaryMood moodResult
              then relevantAdvice @ getAdviceByCategory (toLowerCase (name emotion))
              else relevantAdvice)
       (getAdviceByCategory (toLowerCase (primaryMood moodResult)))
       (mood_result.emotions moodResult)"

definition getAdviceForMood ::
  "string \<Rightarrow> real \<Rightarrow> mood_result \<Rightarrow> session list \<Rightarrow> recommendation outcome" where
  "getAdviceForMood now random moodResult userHistory =
     (let relevantAdvice = relevant_advice moodResult;
          uniqueAdvice = removeDuplicateAdvice relevantAdvice;
          personalizedAdvice = personalizeAdvice uniqueAdvice moodResult userHistory
      in case generatePersonalizedMessage random moodResult userHistory of
           Throws e \<Rightarrow> Throws e
         | Returns message \<Rightarrow>
             Returns \<lparr>mood = primaryMood moodResult,
                      intensity = confidence moodResult,
                      emotions = mood_result.emotions moodResult,
                      advice = personalizedAdvice,
                      personalizedMessage = message,
                      timestamp = now,
                      cacheId = generateCacheId moodResult\<rparr>)"

subsection \<open>Reference definitions and sample inputs\<close>

text \<open>The pair by which two advice items count as the same.\<close>

definition pair_key :: "advice_item \<Rightarrow> string \<times> string" where
  "pair_key item = (advice_item.category item, advice_item.title item)"

text \<open>
  The relevance score as the specification words it: 0.5, plus 0.3 for a category equal to
  the lower-cased primary mood, plus intensity times 0.2 for each emotion whose name matches
  the category, plus 0.1 for an easy item under confidence above 0.7 or a medium item under
  confidence below 0.5, plus 0.15 when some earlier session's advice list has an item of
  the category; the sum clamped to the interval from 0 to 1.
\<close>

definition spec_relevance_score ::
  "advice_item \<Rightarrow> mood_result \<Rightarrow> session list \<Rightarrow> real" where
  "spec_relevance_score item m history =
     max 0 (min 1
       (0.5
        + (if advice_item.category item = toLowerCase (primaryMood m) then 0.3 else 0)
        + (\<Sum>e \<leftarrow> mood_result.emotions m.
             if toLowerCase (name e) = advice_item.category item
             then emotion.intensity e * 0.2 else 0)
        + (if (difficulty item = ''easy'' \<and> confidence m > 0.7) \<or>
              (difficulty item = ''medium'' \<and> confidence m < 0.5) then 0.1 else 0)
        + (if \<exists>s \<in> set history.
                case session.advice s of
                  None \<Rightarrow> False
                | Some items \<Rightarrow>
                    \<exists>u \<in> set items. advice_item.category u = advice_item.category item
           then 0.15 else 0)))"

definition calm_result :: mood_result where
  "calm_result = \<lparr>primaryMood = ''calm'', confidence = 0.5, mood_result.emotions = []\<rparr>"

definition calm_bang_result :: mood_result where
  "calm_bang_result =
     \<lparr>primaryMood = ''calm!'', confidence = 0.5, mood_result.emotions = []\<rparr>"

definition anxiety_result :: mood_result where
  "anxiety_result =
     \<lparr>primaryMood = ''Anxiety'', confidence = 0.9,
      mood_result.emotions = [\<lparr>name = ''anxiety'', intensity = 0.9\<rparr>,
                  \<lparr>name = ''stress'', intensity = 0.4\<rparr>]\<rparr>"

definition sample_now :: string where
  "sample_now = ''2024-01-15T10:00:00.000Z''"

definition anxious_result :: mood_result where
  "anxious_result =
     \<lparr>primaryMood = ''anxious'', confidence = 0.5, mood_result.emotions = []\<rparr>"

section \<open>Properties of the RateLimiter\<close>

lemma saveQuotas_fields [simp]:
  "quotas (saveQuotas env st) = quotas st"
  "initialized (saveQuotas env st) = initialized st"
  by (simp_all add: saveQuotas_def)

lemma initialize_idem [simp]: "initialized st \<Longrightarrow> initialize env st = st"
  by (simp add: initialize_def)

lemma initialize_initialized [simp]: "initialized (initialize env st)"
  by (simp add: initialize_def)

lemmas default_quota_defs =
  createDefaultQuotas_def default_services_def RATE_LIMITS_openai_def
  RATE_LIMITS_googlePlaces_def RATE_LIMITS_database_def

lemmas limiter_run_defs =
  fresh_day_def initialize_def new_RateLimiter_def loadQuotas_def checkAndResetDaily_def
  resetDailyCounters_def saveQuotas_def default_quota_defs

text \<open>After \<open>initialize\<close> the limiter always holds a record: the \<open>TypeError\<close> branch of
  the operations is never taken.\<close>

lemma initialize_quotas:
  "initialized st \<longrightarrow> quotas st \<noteq> None \<Longrightarrow> quotas (initialize env st) \<noteq> None"
  by (auto simp: initialize_def checkAndResetDaily_def resetDailyCounters_def
      split: option.splits)

lemma quota_inv_fresh_day: "quota_inv (fresh_day env)"
  by (simp add: quota_inv_def known_services_def limiter_run_defs)

lemma quota_inv_incrementUsage:
  assumes "quota_inv st"
  shows "quota_inv (snd (incrementUsage env st service))"
proof -
  from assms obtain q where q: "quotas st = Some q" and i: "initialized st"
    by (auto simp: quota_inv_def split: option.splits)
  show ?thesis
  proof (cases "service_lookup q service")
    case (Own sq)
    then have sq: "services q service = Some sq"
      by (auto simp: service_lookup_def split: option.splits if_splits)
    show ?thesis
    proof (cases "used sq \<ge> limit sq")
      case True
      with Own q i assms show ?thesis by (simp add: incrementUsage_def)
    next
      case False
      with Own q i assms sq show ?thesis
        by (auto simp: incrementUsage_def quota_inv_def list_all_iff split: option.splits)
    qed
  next
    case Inherited
    with q i assms show ?thesis by (simp add: incrementUsage_def quota_inv_def)
  next
    case Undefined
    with q i assms show ?thesis by (simp add: incrementUsage_def)
  qed
qed

lemma quota_inv_increment_calls:
  "quota_inv st \<Longrightarrow> quota_inv (increment_calls calls st)"
proof (induction calls arbitrary: st)
  case Nil
  then show ?case by simp
next
  case (Cons c calls)
  obtain env service where c: "c = (env, service)" by (cases c)
  from Cons.prems have "quota_inv (snd (incrementUsage env st service))"
    by (rule quota_inv_incrementUsage)
  then show ?case unfolding c by (simp add: Cons.IH)
qed

lemma quota_inv_remaining:
  assumes "quota_inv st" and "s \<in> set known_services"
  shows "\<exists>sq r. service_of st s = Some sq \<and>
           fst (getRemainingQuota env st s) = Returns (Number r) \<and>
           r + used sq = limit sq \<and> used sq \<le> limit sq"
proof -
  from assms obtain q where q: "quotas st = Some q" and i: "initialized st"
    by (auto simp: quota_inv_def split: option.splits)
  from assms q obtain sq where sq: "services q s = Some sq" and le: "used sq \<le> limit sq"
    by (auto simp: quota_inv_def list_all_iff split: option.splits)
  from q i sq le show ?thesis
    by (simp add: service_of_def getRemainingQuota_def service_lookup_def)
qed

text \<open>
  Claim C1.  Start from the default quota state of a day (a new limiter, nothing stored,
  initialized) and run any finite sequence of \<open>incrementUsage\<close> calls, for any service
  names, known or not.  Then for each of the three known services the limiter holds a
  counter, \<open>getRemainingQuota\<close> returns a number \<open>r\<close> with \<open>r + used = limit\<close>, and
  \<open>used\<close> does not exceed \<open>limit\<close>.
\<close>

theorem quota_invariant_after_increments:
  assumes "s \<in> set known_services"
  shows "\<exists>sq r. service_of (increment_calls calls (fresh_day env0)) s = Some sq \<and>
           fst (getRemainingQuota env (increment_calls calls (fresh_day env0)) s)
             = Returns (Number r) \<and>
           r + used sq = limit sq \<and> used sq \<le> limit sq"
  using quota_inv_remaining [OF quota_inv_increment_calls [OF quota_inv_fresh_day] assms] .

theorem quota_invariant_after_increments_witness:
  "''openai'' \<in> set known_services \<and>
   (\<exists>sq r. service_of (increment_calls [(env_jan15, ''openai''), (env_jan15, ''unknown''),
                (env_jan15, ''openai'')] (fresh_day env_jan15)) ''openai'' = Some sq \<and>
      fst (getRemainingQuota env_jan15
             (increment_calls [(env_jan15, ''openai''), (env_jan15, ''unknown''),
                (env_jan15, ''openai'')] (fresh_day env_jan15)) ''openai'')
        = Returns (Number r) \<and>
      r + used sq = limit sq \<and> used sq \<le> limit sq)"
  using quota_invariant_after_increments
    [of "''openai''" "[(env_jan15, ''openai''), (env_jan15, ''unknown''),
       (env_jan15, ''openai'')]" env_jan15 env_jan15]
  by (simp add: known_services_def)

lemma incrementUsage_at_limit:
  assumes "service_of (initialize env st) s = Some sq" and "limit sq \<le> used sq"
  shows "incrementUsage env st s = (Returns False, initialize env st)"
  using assms
  by (auto simp: incrementUsage_def service_of_def service_lookup_def Let_def
      split: option.splits)

lemma incrementUsage_below_limit:
  assumes "initialized st" and "service_of st s = Some sq" and "used sq < limit sq"
  shows "fst (incrementUsage env st s) = Returns True"
    and "initialized (snd (incrementUsage env st s))"
    and "service_of (snd (incrementUsage env st s)) s = Some (sq\<lparr>used := used sq + 1\<rparr>)"
  using assms
  by (auto simp: incrementUsage_def service_of_def service_lookup_def Let_def
      split: option.splits)

lemma repeat_increment_below:
  assumes "initialized st" and "service_of st s = Some sq"
    and "used sq + int n \<le> limit sq"
  shows "fst (repeat_increment n env st s) = replicate n (Returns True) \<and>
         initialized (snd (repeat_increment n env st s)) \<and>
         service_of (snd (repeat_increment n env st s)) s
           = Some (sq\<lparr>used := used sq + int n\<rparr>)"
  using assms
proof (induction n arbitrary: st sq)
  case 0
  then show ?case by simp
next
  case (Suc n)
  from Suc.prems have lt: "used sq < limit sq" by simp
  note step = incrementUsage_below_limit [OF Suc.prems(1,2) lt, of env]
  have "used (sq\<lparr>used := used sq + 1\<rparr>) + int n \<le> limit (sq\<lparr>used := used sq + 1\<rparr>)"
    using Suc.prems(3) by simp
  from Suc.IH [OF step(2) step(3) this] step(1)
  show ?case by (simp add: split_beta add.assoc add.commute)
qed

lemma repeat_increment_append:
  "repeat_increment (m + n) env st s =
     (fst (repeat_increment m env st s) @
        fst (repeat_increment n env (snd (repeat_increment m env st s)) s),
      snd (repeat_increment n env (snd (repeat_increment m env st s)) s))"
  by (induction m arbitrary: st) (simp_all add: split_beta)

lemma fresh_day_openai:
  "initialized (fresh_day env)"
  "service_of (fresh_day env) ''openai'' = Some \<lparr>used = 0, limit = 50\<rparr>"
  by (simp_all add: service_of_def limiter_run_defs)

lemma fifty_one_increments:
  "fst (repeat_increment 51 env (fresh_day env) ''openai'')
      = replicate 50 (Returns True) @ [Returns False] \<and>
   fst (checkQuota env (snd (repeat_increment 51 env (fresh_day env) ''openai'')) ''openai'')
      = Returns False"
proof -
  let ?st50 = "snd (repeat_increment 50 env (fresh_day env) ''openai'')"
  have a: "fst (repeat_increment 50 env (fresh_day env) ''openai'')
             = replicate 50 (Returns True)"
    and i: "initialized ?st50"
    and u: "service_of ?st50 ''openai'' = Some \<lparr>used = 50, limit = 50\<rparr>"
    using repeat_increment_below [OF fresh_day_openai, of 50 env] by simp_all
  have init: "initialize env ?st50 = ?st50" using i by simp
  have b: "incrementUsage env ?st50 ''openai'' = (Returns False, ?st50)"
    using incrementUsage_at_limit [of env ?st50 "''openai''" "\<lparr>used = 50, limit = 50\<rparr>"]
      u init by simp
  have r1: "repeat_increment 1 env ?st50 ''openai'' = ([Returns False], ?st50)"
    using b by (simp add: numeral_eq_Suc)
  have "repeat_increment (50 + 1) env (fresh_day env) ''openai''
          = (replicate 50 (Returns True) @ [Returns False], ?st50)"
    unfolding repeat_increment_append r1 a by simp
  then have c: "repeat_increment 51 env (fresh_day env) ''openai''
          = (replicate 50 (Returns True) @ [Returns False], ?st50)" by simp
  have d: "fst (checkQuota env ?st50 ''openai'') = Returns False"
    using u i
    by (simp add: checkQuota_def service_of_def service_lookup_def split: option.splits)
  show ?thesis unfolding c using d by simp
qed

text \<open>
  Claim C2.  \<open>incrementUsage\<close> first runs \<open>initialize\<close>; if the counter of a known service
  then satisfies \<open>used = limit\<close>, the call returns \<open>false\<close> and the state is the initialized
  one, counter untouched.  Starting from a fresh day, where the classifier service
  \<open>openai\<close> has limit 50, the first 50 of 51 consecutive \<open>incrementUsage('openai')\<close> calls
  return \<open>true\<close>, the 51st returns \<open>false\<close>, and \<open>checkQuota('openai')\<close> then returns
  \<open>false\<close>.
\<close>

theorem increment_refused_at_limit:
  assumes "s \<in> set known_services"
    and "service_of (initialize env st) s = Some sq"
    and "used sq = limit sq"
  shows "incrementUsage env st s = (Returns False, initialize env st) \<and>
         service_of (snd (incrementUsage env st s)) s = Some sq \<and>
         service_of (fresh_day env) ''openai'' = Some \<lparr>used = 0, limit = 50\<rparr> \<and>
         fst (repeat_increment 51 env (fresh_day env) ''openai'')
           = replicate 50 (Returns True) @ [Returns False] \<and>
         fst (checkQuota env (snd (repeat_increment 51 env (fresh_day env) ''openai''))
                ''openai'') = Returns False"
proof -
  have "incrementUsage env st s = (Returns False, initialize env st)"
    using incrementUsage_at_limit [OF assms(2)] assms(3) by simp
  with assms(2) fresh_day_openai(2) [of env] fifty_one_increments [of env]
  show ?thesis by simp
qed

theorem increment_refused_at_limit_witness:
  "''openai'' \<in> set known_services \<and>
   service_of (initialize env_jan15 exhausted_openai) ''openai''
     = Some \<lparr>used = 50, limit = 50\<rparr> \<and>
   used \<lparr>used = 50, limit = 50\<rparr> = limit \<lparr>used = 50, limit = 50\<rparr> \<and>
   incrementUsage env_jan15 exhausted_openai ''openai''
     = (Returns False, initialize env_jan15 exhausted_openai) \<and>
   service_of (snd (incrementUsage env_jan15 exhausted_openai ''openai'')) ''openai''
     = Some \<lparr>used = 50, limit = 50\<rparr>"
proof -
  have k: "''openai'' \<in> set known_services" by (simp add: known_services_def)
  have s: "service_of (initialize env_jan15 exhausted_openai) ''openai''
             = Some \<lparr>used = 50, limit = 50\<rparr>"
    by (simp add: exhausted_openai_def jan15_record_def service_of_def initialize_def)
  have e: "used \<lparr>used = 50, limit = 50\<rparr> = limit \<lparr>used = 50, limit = 50\<rparr>" by simp
  from increment_refused_at_limit [OF k s e] k s show ?thesis by simp
qed

text \<open>
  A limiter that has not been initialized yet resets a stored record of another day: the
  first operation of a new page load gives every service \<open>used = 0\<close> and recomputes the
  reset time.
\<close>

lemma first_initialization_resets_old_record:
  assumes "\<not> initialized st" and "\<not> getItemThrows env"
    and "localStorage st = ParsedItem (Some q)" and "date q \<noteq> getTodayString env"
  shows "quotas (initialize env st)
           = Some \<lparr>date = getTodayString env, services = default_services,
                    resetTime = getNextMidnight env\<rparr>"
  using assms
  by (simp add: initialize_def loadQuotas_def checkAndResetDaily_def resetDailyCounters_def)

text \<open>
  Claim C6 does not hold for a limiter that is already initialized, which is the state of
  the singleton for as long as the page stays open.  The limiter below holds the record of
  15 January (classifier counter 50 of 50) and has stored it; on 16 January the stored
  date differs from the current day, yet \<open>initialize\<close> returns at once, the first
  \<open>checkQuota\<close> and \<open>incrementUsage\<close> of the new day are refused, and the record keeps
  its date, its counters and its reset time.
\<close>

theorem no_reset_while_initialized:
  "localStorage exhausted_openai = ParsedItem (Some jan15_record) \<and>
   date jan15_record \<noteq> getTodayString env_jan16 \<and>
   checkQuota env_jan16 exhausted_openai ''openai'' = (Returns False, exhausted_openai) \<and>
   incrementUsage env_jan16 exhausted_openai ''openai'' = (Returns False, exhausted_openai) \<and>
   service_of exhausted_openai ''openai'' = Some \<lparr>used = 50, limit = 50\<rparr> \<and>
   quotas (initialize env_jan16 exhausted_openai) = Some jan15_record \<and>
   resetTime jan15_record \<noteq> getNextMidnight env_jan16"
  by (simp add: exhausted_openai_def jan15_record_def env_jan16_def checkQuota_def
      incrementUsage_def service_lookup_def service_of_def)

section \<open>Properties of the MoodAdviceService\<close>

subsection \<open>The advice list\<close>

lemma remove_seen_keys:
  "distinct (map advice_key (remove_seen seen items)) \<and>
   set (map advice_key (remove_seen seen items)) \<inter> seen = {}"
proof (induction items arbitrary: seen)
  case Nil
  show ?case by simp
next
  case (Cons item items)
  show ?case
  proof (cases "advice_key item \<in> seen")
    case True
    then show ?thesis using Cons.IH [of seen] by simp
  next
    case False
    then show ?thesis using Cons.IH [of "insert (advice_key item) seen"] by auto
  qed
qed

lemma distinct_removeDuplicateAdvice:
  "distinct (map advice_key (removeDuplicateAdvice items))"
  using remove_seen_keys [of "{}" items] by (simp add: removeDuplicateAdvice_def)

lemma distinct_map_sort_key:
  "distinct (map f (sort_key k xs)) = distinct (map f xs)"
  by (simp add: distinct_map)

lemma distinct_map_take: "distinct (map f xs) \<Longrightarrow> distinct (map f (take n xs))"
  by (simp add: take_map [symmetric])

lemma map_advice_key_score:
  "map advice_key (map (\<lambda>item. item\<lparr>relevanceScore := f item\<rparr>) items)
     = map advice_key items"
  by (simp add: comp_def advice_key_def)

lemma distinct_personalizeAdvice:
  assumes "distinct (map advice_key items)"
  shows "distinct (map advice_key (personalizeAdvice items m h))"
proof -
  define scored where
    "scored = map (\<lambda>item. item\<lparr>relevanceScore :=
                 Some (calculateRelevanceScore item m h)\<rparr>) items"
  define sorted_items where "sorted_items = sort_by_relevance scored"
  define filtered where
    "filtered = (if confidence m > 0.8
       then filter (\<lambda>item. difficulty item = ''easy'' \<or>
                       advice_item.category item = ''immediate_relief'') sorted_items
       else sorted_items)"
  have 1: "distinct (map advice_key scored)"
    unfolding scored_def map_advice_key_score by (rule assms)
  have 2: "distinct (map advice_key sorted_items)"
    unfolding sorted_items_def sort_by_relevance_def distinct_map_sort_key by (rule 1)
  have 3: "distinct (map advice_key filtered)"
    unfolding filtered_def using 2 by (simp add: distinct_map_filter)
  have 4: "distinct (map advice_key (take 6 filtered))"
    using 3 by (rule distinct_map_take)
  have "personalizeAdvice items m h
          = map (\<lambda>item. item\<lparr>relevanceScore := None\<rparr>) (take 6 filtered)"
    by (simp add: personalizeAdvice_def Let_def filtered_def sorted_items_def scored_def)
  then show ?thesis using 4 by (simp only: map_advice_key_score)
qed

lemma length_personalizeAdvice: "length (personalizeAdvice items m h) \<le> 6"
  by (simp add: personalizeAdvice_def Let_def)

lemma unscored_personalizeAdvice:
  "item \<in> set (personalizeAdvice items m h) \<Longrightarrow> relevanceScore item = None"
  by (auto simp: personalizeAdvice_def Let_def)

text \<open>Equal pairs give equal keys, so distinct keys mean distinct pairs.\<close>

lemma distinct_pairs_of_keys:
  assumes "distinct (map advice_key items)"
  shows "distinct (map pair_key items)"
proof -
  have "map advice_key items = map (\<lambda>(c, t). c @ ''-'' @ t) (map pair_key items)"
    by (simp add: advice_key_def pair_key_def)
  with assms show ?thesis by (metis distinct_map)
qed

lemma getAdviceForMood_returns:
  assumes "toLowerCase (primaryMood m) \<notin> set object_prototype_keys \<or> length h \<le> 2"
  shows "\<exists>r. getAdviceForMood now random m h = Returns r"
proof -
  have "\<exists>msg. generatePersonalizedMessage random m h = Returns msg"
    using assms
    by (auto simp: generatePersonalizedMessage_def Let_def split: option.splits)
  then show ?thesis by (auto simp: getAdviceForMood_def Let_def)
qed

lemma getAdviceForMood_advice:
  assumes "getAdviceForMood now random m h = Returns r"
  shows "advice r = personalizeAdvice (removeDuplicateAdvice (relevant_advice m)) m h"
  using assms by (auto simp: getAdviceForMood_def Let_def split: outcome.splits)

lemmas advice_run_defs =
  getAdviceForMood_def relevant_advice_def getAdviceByCategory_def toLowerCase_def
  toLowerCase_char_def adviceDatabase_def removeDuplicateAdvice_def personalizeAdvice_def
  sort_by_relevance_def generatePersonalizedMessage_def messages_def
  object_prototype_keys_def default_messages_def generateCacheId_def cache_id_char_def




subsection \<open>The relevance score\<close>

lemma foldl_boost:
  "foldl (\<lambda>score e. if P e then score + f e else score) s es
     = s + (\<Sum>e \<leftarrow> es. if P e then f e else 0)"
  by (induction es arbitrary: s) (simp_all add: add.assoc)

lemma boost_nonneg:
  assumes "\<forall>e \<in> set es. 0 \<le> emotion.intensity e"
  shows "0 \<le> (\<Sum>e \<leftarrow> es. if P e then emotion.intensity e * 0.2 else (0::real))"
  using assms by (intro sum_list_nonneg) auto

lemma has_used_similar:
  "list_ex (\<lambda>s. case session.advice s of None \<Rightarrow> False
                 | Some items \<Rightarrow> list_ex (\<lambda>u. advice_item.category u = c) items) history
   = (\<exists>s \<in> set history. case session.advice s of None \<Rightarrow> False
         | Some items \<Rightarrow> \<exists>u \<in> set items. advice_item.category u = c)"
  unfolding list_ex_iff
  by (rule bex_cong [OF refl]) (simp split: option.splits)



subsection \<open>The cache id\<close>

lemma cache_id_dash: "cache_id_char CHR ''-''"
  by (simp add: cache_id_char_def)

lemma generateCacheId_split:
  "generateCacheId m = filter cache_id_char (primaryMood m) @ ''-'' @
     filter cache_id_char
       (join '','' (map (\<lambda>e. name e @ '':'' @ toFixed1 (emotion.intensity e))
                      (mood_result.emotions m)))"
  by (simp add: generateCacheId_def Let_def cache_id_dash)

text \<open>
  Claim C7 as stated fails in its second half: the primary moods \<open>calm\<close> and \<open>calm!\<close>
  differ, the emotions are the same, and the ids are equal, because the id is stripped of
  every character outside \<open>[a-zA-Z0-9:,-]\<close>.
\<close>

theorem cache_id_collision:
  "primaryMood calm_result \<noteq> primaryMood calm_bang_result \<and>
   mood_result.emotions calm_result = mood_result.emotions calm_bang_result \<and>
   generateCacheId calm_result = generateCacheId calm_bang_result"
  by (simp add: calm_result_def calm_bang_result_def generateCacheId_def cache_id_char_def)

text \<open>
  Claim C7, amended.  The id depends on the primary mood and the emotions only: two mood
  results that agree on both (whatever else they hold) get the same id.  For two mood
  results with the same emotions the ids differ exactly when the primary moods still
  differ after the characters outside \<open>[a-zA-Z0-9:,-]\<close> are removed from them.
\<close>

theorem cache_id_determined_by_mood_and_emotions:
  fixes a :: "'a mood_result_scheme" and b :: "'b mood_result_scheme"
  shows "(primaryMood a = primaryMood b \<and>
          mood_result.emotions a = mood_result.emotions b
            \<longrightarrow> generateCacheId a = generateCacheId b) \<and>
         (mood_result.emotions a = mood_result.emotions b \<longrightarrow>
            (generateCacheId a \<noteq> generateCacheId b) =
            (filter cache_id_char (primaryMood a) \<noteq> filter cache_id_char (primaryMood b)))"
  by (simp add: generateCacheId_split)

theorem cache_id_determined_by_mood_and_emotions_witness:
  "primaryMood calm_result = primaryMood (calm_result\<lparr>confidence := 0.9\<rparr>) \<and>
   mood_result.emotions calm_result = mood_result.emotions (calm_result\<lparr>confidence := 0.9\<rparr>) \<and>
   generateCacheId calm_result = generateCacheId (calm_result\<lparr>confidence := 0.9\<rparr>) \<and>
   mood_result.emotions calm_result = mood_result.emotions anxious_result \<and>
   generateCacheId calm_result \<noteq> generateCacheId anxious_result \<and>
   filter cache_id_char (primaryMood calm_result)
     \<noteq> filter cache_id_char (primaryMood anxious_result)"
proof -
  have e: "mood_result.emotions calm_result = mood_result.emotions anxious_result"
    by (simp add: calm_result_def anxious_result_def)
  have f: "filter cache_id_char (primaryMood calm_result)
             \<noteq> filter cache_id_char (primaryMood anxious_result)"
    by (simp add: calm_result_def anxious_result_def cache_id_char_def)
  from cache_id_determined_by_mood_and_emotions
         [of calm_result "calm_result\<lparr>confidence := 0.9\<rparr>"]
       cache_id_determined_by_mood_and_emotions [of calm_result anxious_result]
       e f
  show ?thesis by simp
qed

section \<open>Properties of the LocalStorageManager\<close>

lemma checkDatabaseQuota_exhausted:
  assumes "initialized rl" and "service_of rl ''database'' = Some sq"
    and "limit sq \<le> used sq"
  shows "checkDatabaseQuota env rl
           = (Throws ''Daily database operation limit exceeded'', rl)"
  using assms
  by (simp add: checkDatabaseQuota_def checkQuota_def service_of_def service_lookup_def
      split: option.splits)

lemma manager_initialize_stores:
  assumes "manager_initialize env m = Returns m1"
  shows "sessions m1 = sessions m" and "moodHistory m1 = moodHistory m"
    and "session_cache m1 = session_cache m" and "mood_cache m1 = mood_cache m"
    and "analysis_cache_item m1 = analysis_cache_item m"
  using assms by (auto simp: manager_initialize_def split: if_splits option.splits)

lemma manager_initialize_returns:
  assumes "db_connected m \<or> openError env = None"
  shows "\<exists>m1. manager_initialize env m = Returns m1"
  using assms by (auto simp: manager_initialize_def)

lemma saveSession_exhausted:
  assumes "initialized (limiter st)" and "service_of (limiter st) ''database'' = Some sq"
    and "limit sq \<le> used sq"
  shows "saveSession env st sessionData =
           (case manager_initialize env (manager st) of
              Throws e \<Rightarrow> (Throws e, st)
            | Returns m \<Rightarrow> (Throws ''Daily database operation limit exceeded'',
                             \<lparr>limiter = limiter st, manager = m\<rparr>))"
  by (simp add: saveSession_def checkDatabaseQuota_exhausted [OF assms]
      split: outcome.splits)

lemma saveMoodEntry_exhausted:
  assumes "initialized (limiter st)" and "service_of (limiter st) ''database'' = Some sq"
    and "limit sq \<le> used sq"
  shows "saveMoodEntry env st moodData =
           (case manager_initialize env (manager st) of
              Throws e \<Rightarrow> (Throws e, st)
            | Returns m \<Rightarrow> (Throws ''Daily database operation limit exceeded'',
                             \<lparr>limiter = limiter st, manager = m\<rparr>))"
  by (simp add: saveMoodEntry_def checkDatabaseQuota_exhausted [OF assms]
      split: outcome.splits)

lemma exhausted_write_shape:
  assumes "r = (case manager_initialize env (manager st) of
              Throws e \<Rightarrow> (Throws e, st)
            | Returns m \<Rightarrow> (Throws ''Daily database operation limit exceeded'',
                             \<lparr>limiter = limiter st, manager = m\<rparr>))"
  shows "(\<exists>e. fst r = Throws e) \<and>
         (db_connected (manager st) \<or> openError env = None \<longrightarrow>
            fst r = Throws ''Daily database operation limit exceeded'') \<and>
         untouched st (snd r)"
proof (cases "manager_initialize env (manager st)")
  case (Throws e)
  then have "\<not> (db_connected (manager st) \<or> openError env = None)"
    by (auto simp: manager_initialize_def split: if_splits option.splits)
  with Throws assms show ?thesis by (auto simp: untouched_def)
next
  case (Returns m)
  with assms manager_initialize_stores [OF Returns] show ?thesis
    by (simp add: untouched_def)
qed

text \<open>
  Claim C5 as stated fails: with the database counter at its limit, \<open>saveSession\<close> and
  \<open>saveMoodEntry\<close> reject with the error \<open>Daily database operation limit exceeded\<close>,
  and nothing is written, neither to the database nor to the local cache.
\<close>

theorem exhausted_write_throws:
  "saveSession storage_env_jan15 \<lparr>limiter = exhausted_database, manager = empty_manager\<rparr>
     sample_session
     = (Throws ''Daily database operation limit exceeded'',
        \<lparr>limiter = exhausted_database, manager = empty_manager\<rparr>) \<and>
   saveMoodEntry storage_env_jan15 \<lparr>limiter = exhausted_database, manager = empty_manager\<rparr>
     sample_mood_entry
     = (Throws ''Daily database operation limit exceeded'',
        \<lparr>limiter = exhausted_database, manager = empty_manager\<rparr>) \<and>
   session_cache empty_manager = None \<and> mood_cache empty_manager = None"
  by (simp add: saveSession_def saveMoodEntry_def manager_initialize_def empty_manager_def
      checkDatabaseQuota_def checkQuota_def exhausted_database_def service_lookup_def)

text \<open>
  Claim C5, amended.  When the limiter is initialized and the database counter has reached
  its limit, \<open>saveSession\<close> and \<open>saveMoodEntry\<close> fail the caller: each rejects with an
  error, which is \<open>Daily database operation limit exceeded\<close> whenever the database
  connection is open or can be opened, and each leaves the limiter, the two object stores
  and the local cache as they were.
\<close>

theorem writes_fail_when_database_quota_exhausted:
  assumes "initialized (limiter st)"
    and "service_of (limiter st) ''database'' = Some sq"
    and "limit sq \<le> used sq"
  shows "(\<exists>e. fst (saveSession env st sessionData) = Throws e) \<and>
         (db_connected (manager st) \<or> openError env = None \<longrightarrow>
            fst (saveSession env st sessionData)
              = Throws ''Daily database operation limit exceeded'') \<and>
         untouched st (snd (saveSession env st sessionData)) \<and>
         (\<exists>e. fst (saveMoodEntry env st moodData) = Throws e) \<and>
         (db_connected (manager st) \<or> openError env = None \<longrightarrow>
            fst (saveMoodEntry env st moodData)
              = Throws ''Daily database operation limit exceeded'') \<and>
         untouched st (snd (saveMoodEntry env st moodData))"
  using exhausted_write_shape [OF saveSession_exhausted [OF assms, of env sessionData]]
    exhausted_write_shape [OF saveMoodEntry_exhausted [OF assms, of env moodData]]
  by simp

theorem writes_fail_when_database_quota_exhausted_witness:
  "initialized exhausted_database \<and>
   service_of exhausted_database ''database'' = Some \<lparr>used = 1000, limit = 1000\<rparr> \<and>
   db_connected empty_manager \<and>
   fst (saveSession storage_env_jan15
          \<lparr>limiter = exhausted_database, manager = empty_manager\<rparr> sample_session)
     = Throws ''Daily database operation limit exceeded'' \<and>
   fst (saveMoodEntry storage_env_jan15
          \<lparr>limiter = exhausted_database, manager = empty_manager\<rparr> sample_mood_entry)
     = Throws ''Daily database operation limit exceeded'' \<and>
   untouched \<lparr>limiter = exhausted_database, manager = empty_manager\<rparr>
     (snd (saveSession storage_env_jan15
             \<lparr>limiter = exhausted_database, manager = empty_manager\<rparr> sample_session))"
proof -
  let ?st = "\<lparr>limiter = exhausted_database, manager = empty_manager\<rparr>"
  have i: "initialized (limiter ?st)" by (simp add: exhausted_database_def)
  have s: "service_of (limiter ?st) ''database'' = Some \<lparr>used = 1000, limit = 1000\<rparr>"
    by (simp add: exhausted_database_def service_of_def)
  have l: "limit \<lparr>used = 1000, limit = 1000\<rparr> \<le> used \<lparr>used = 1000, limit = 1000\<rparr>"
    by simp
  have c: "db_connected empty_manager" by (simp add: empty_manager_def)
  from writes_fail_when_database_quota_exhausted
         [OF i s l, of storage_env_jan15 sample_session sample_mood_entry] i s c
  show ?thesis by simp
qed

section \<open>Properties of the MoodAnalysisService\<close>

subsection \<open>The mock generator\<close>

lemma moodDatabase_keys: "map fst (moodDatabase random) = validMoods"
  by (simp add: moodDatabase_def validMoods_def)

lemma moodDatabase_moods: "map (primaryMood \<circ> snd) (moodDatabase random) = validMoods"
  by (simp add: moodDatabase_def validMoods_def)

lemma moodDatabase_confidences:
  "map (confidence \<circ> snd) (moodDatabase random)
     = map (\<lambda>(i, b, s). b + random i * s) mock_bands"
  by (simp add: moodDatabase_def mock_bands_def)

lemma distinct_validMoods: "distinct validMoods"
  by (simp add: validMoods_def)

lemma band:
  assumes "0 \<le> (r::real)" "r < 1" "0 < b" "0 < s" "b + s \<le> 1"
  shows "0 < b + r * s \<and> b + r * s < 1"
proof -
  have "0 \<le> r * s" using assms by simp
  moreover have "r * s < 1 * s" using assms by (intro mult_strict_right_mono) auto
  ultimately show ?thesis using assms by (intro conjI; linarith)
qed

lemma mock_bands_ok:
  "\<forall>(i, b, s) \<in> set mock_bands. 0 < b \<and> 0 < s \<and> b + s \<le> 1"
  by (simp add: mock_bands_def)

lemma confidences_in_range:
  assumes "\<forall>i. 0 \<le> random i \<and> random i < 1"
    and "c \<in> set (map (confidence \<circ> snd) (moodDatabase random))"
  shows "0 < c \<and> c < 1"
proof -
  from assms(2) obtain i b s where "(i, b, s) \<in> set mock_bands"
    and c: "c = b + random i * s"
    unfolding moodDatabase_confidences by auto
  with mock_bands_ok have "0 < b \<and> 0 < s \<and> b + s \<le> 1" by auto
  with band [of "random i" b s] assms(1) show ?thesis unfolding c by simp
qed

text \<open>
  Claim C10.  Whatever the random source draws (each draw a number from 0 up to, not
  including, 1, as \<open>Math.random\<close> delivers), \<open>generateMockAnalysis\<close> returns a result with
  mood data whose primary mood is one of the 15 canonical moods, whose confidence lies
  strictly between 0 and 1, and whose \<open>isMockData\<close> marker is set.
\<close>

theorem mock_analysis_well_formed:
  assumes "\<forall>i. 0 \<le> random i \<and> random i < 1"
  shows "\<exists>a. generateMockAnalysis random now = Some a \<and>
           primaryMood a \<in> set validMoods \<and>
           0 < confidence a \<and> confidence a < 1 \<and> isMockData a"
proof -
  define db where "db = moodDatabase random"
  have keys: "map fst db = validMoods" unfolding db_def by (rule moodDatabase_keys)
  have len: "length db = 15"
    using arg_cong [OF keys, of length] by (simp add: validMoods_def)
  define i where "i = \<lfloor>random 15 * real (length (map fst db))\<rfloor>"
  have r: "0 \<le> random 15" "random 15 < 1" using assms by auto
  have i0: "0 \<le> i" unfolding i_def using r by (simp add: len)
  have "random 15 * 15 < 15" using r by simp
  then have i15: "i < 15" unfolding i_def by (simp add: len floor_less_iff)
  define k where "k = map fst db ! nat i"
  have kin: "k \<in> set (map fst db)" unfolding k_def using i0 i15 len by simp
  then obtain d where d: "(k, d) \<in> set db" by auto
  have dist: "distinct (map fst db)" unfolding keys by (rule distinct_validMoods)
  have m: "map_of db k = Some d" using d dist by simp
  have "primaryMood d \<in> set (map (primaryMood \<circ> snd) db)" using d by force
  then have mood: "primaryMood d \<in> set validMoods"
    unfolding db_def moodDatabase_moods .
  have "confidence d \<in> set (map (confidence \<circ> snd) (moodDatabase random))"
    using d unfolding db_def by force
  then have conf: "0 < confidence d \<and> confidence d < 1"
    by (rule confidences_in_range [OF assms])
  have "generateMockAnalysis random now =
          (if 0 \<le> i \<and> i < int (length (map fst db)) then
             (case map_of db k of
                None \<Rightarrow> None
              | Some moodData \<Rightarrow>
                  Some \<lparr>primaryMood = primaryMood moodData,
                        confidence = confidence moodData,
                        mood_data.description = mood_data.description moodData,
                        recommendations = recommendations moodData,
                        processingTime = Some (800 + random 16 * 400),
                        isMockData = True,
                        analysis_result.timestamp = Some now,
                        businessCategories = None,
                        metadata = None\<rparr>)
           else None)"
    unfolding generateMockAnalysis_def Let_def db_def i_def k_def by (rule refl)
  also have "\<dots> = Some \<lparr>primaryMood = primaryMood d, confidence = confidence d,
                  mood_data.description = mood_data.description d,
                  recommendations = recommendations d,
                  processingTime = Some (800 + random 16 * 400), isMockData = True,
                  analysis_result.timestamp = Some now, businessCategories = None,
                  metadata = None\<rparr>"
    using i0 i15 m len by simp
  finally have g: "generateMockAnalysis random now
        = Some \<lparr>primaryMood = primaryMood d, confidence = confidence d,
                mood_data.description = mood_data.description d,
                recommendations = recommendations d,
                processingTime = Some (800 + random 16 * 400), isMockData = True,
                analysis_result.timestamp = Some now, businessCategories = None,
                metadata = None\<rparr>" .
  from g mood conf show ?thesis by simp
qed

theorem mock_analysis_well_formed_witness:
  "(0 \<le> (1 / 2 :: real) \<and> (1 / 2 :: real) < 1) \<and>
   (\<exists>a. generateMockAnalysis (\<lambda>i. 1 / 2) sample_now = Some a \<and>
      primaryMood a \<in> set validMoods \<and>
      0 < confidence a \<and> confidence a < 1 \<and> isMockData a)"
proof -
  have h: "\<forall>i::nat. 0 \<le> (\<lambda>i. 1 / 2 :: real) i \<and> (\<lambda>i. 1 / 2 :: real) i < 1" by simp
  from mock_analysis_well_formed [OF h, of sample_now] show ?thesis by simp
qed

subsection \<open>Substrings\<close>

lemma string_includes_iff: "string_includes s p = (\<exists>a b. s = a @ p @ b)"
proof (induction s)
  case Nil
  then show ?case by auto
next
  case (Cons c cs)
  show ?case
  proof
    assume "string_includes (c # cs) p"
    then consider "prefix p (c # cs)" | "string_includes cs p" by auto
    then show "\<exists>a b. c # cs = a @ p @ b"
    proof cases
      case 1
      then obtain b where "c # cs = p @ b" by (auto simp: prefix_def)
      then have "c # cs = [] @ p @ b" by simp
      then show ?thesis by blast
    next
      case 2
      with Cons.IH obtain a b where "cs = a @ p @ b" by auto
      then have "c # cs = (c # a) @ p @ b" by simp
      then show ?thesis by blast
    qed
  next
    assume "\<exists>a b. c # cs = a @ p @ b"
    then obtain a b where ab: "c # cs = a @ p @ b" by auto
    show "string_includes (c # cs) p"
    proof (cases a)
      case Nil
      with ab have "prefix p (c # cs)" by (simp add: prefix_def)
      then show ?thesis by simp
    next
      case (Cons x a')
      with ab have "cs = a' @ p @ b" by simp
      with Cons.IH have "string_includes cs p" by blast
      then show ?thesis by simp
    qed
  qed
qed

text \<open>The limiter's denial always carries the marker the \<open>catch\<close> looks for.\<close>

lemma quota_message_marked:
  "string_includes (quota_exceeded_message info) ''quota exceeded''"
proof -
  have "quota_exceeded_message info
          = ''Daily OpenAI '' @ ''quota exceeded'' @
            ('' ('' @ show_int (used info) @ ''/'' @ show_int (limit info) @
             ''). Please try again tomorrow.'')"
    by (simp add: quota_exceeded_message_def)
  then show ?thesis unfolding string_includes_iff by blast
qed

text \<open>The failures of \<open>callOpenAIAPI\<close> with a fixed text never carry it.\<close>

lemma fixed_failures_unmarked:
  "\<not> string_includes (failure_message InvalidResponseFormat) ''quota exceeded''"
  "\<not> string_includes (failure_message (ParseError MissingPrimaryMood)) ''quota exceeded''"
  "\<not> string_includes (failure_message (ParseError MissingDescription)) ''quota exceeded''"
  by (simp_all add: failure_message_def parse_problem_message_def)

subsection \<open>\<open>analyzeMood\<close>\<close>

lemma checkQuota_initialized:
  assumes "initialized rl" and "service_of rl s = Some sq"
  shows "checkQuota env rl s = (Returns (used sq < limit sq), rl)"
  using assms
  by (auto simp: checkQuota_def service_of_def service_lookup_def split: option.splits)

lemma getAllQuotas_initialized:
  assumes "initialized rl" and "service_of rl s = Some sq"
  shows "\<exists>quotaInfo. getAllQuotas env rl = (Returns quotaInfo, rl) \<and>
           entries quotaInfo s = Some (quota_info_of sq)"
  using assms
  by (auto simp: getAllQuotas_def service_of_def split: option.splits)

lemma world_limiter_same [simp]:
  "w\<lparr>stores := (stores w)\<lparr>limiter := limiter (stores w)\<rparr>\<rparr> = w"
  by simp

lemmas analysis_run_defs =
  analyzeMood_def analyze_attempt_def sample_world_def api_env_def test_env_def
  checkQuota_def getAllQuotas_def service_lookup_def quota_info_of_def
  storage_env_jan15_def env_jan15_def truthy_string_def

text \<open>The limiter's denial is rethrown, whatever the drawing data.\<close>

lemma quota_denial_rethrown:
  assumes "isInitialized (moodAnalysisService w)"
    and "initialized (limiter (stores w))"
    and "service_of (limiter (stores w)) ''openai'' = Some sq"
    and "limit sq \<le> used sq"
  shows "analyzeMood env w exportData
           = (Throws (quota_exceeded_message (quota_info_of sq)), w)"
proof -
  from getAllQuotas_initialized [OF assms(2,3)]
  obtain quotaInfo where
    g: "getAllQuotas (clock (storageEnv env)) (limiter (stores w))
          = (Returns quotaInfo, limiter (stores w))"
    and e: "entries quotaInfo ''openai'' = Some (quota_info_of sq)" by blast
  have a: "analyze_attempt env w exportData
             = (Throws (quota_exceeded_message (quota_info_of sq)), w)"
    using assms(4) e
    by (simp add: analyze_attempt_def checkQuota_initialized [OF assms(2,3)] g)
  show ?thesis
    using assms(1) by (simp add: analyzeMood_def a quota_message_marked)
qed

text \<open>
  Claim C4 fails in its first half.  With quota available, \<open>analyzeMood(null)\<close> and
  \<open>analyzeMood\<close> of an export without \<open>dataUrl\<close> do not reject: the error
  \<open>Invalid drawing data provided\<close> is thrown inside the \<open>try\<close> block, its message does
  not contain \<open>quota exceeded\<close>, and the \<open>catch\<close> turns it into the fallback analysis.
  (The second half holds: with the classifier counter at its limit the call rejects with
  the quota error.)  The surroundings are those of the repository's own test, which
  expects a rejection.
\<close>

theorem invalid_input_returns_fallback:
  "analyzeMood test_env (sample_world None (fresh_day env_jan15)) None
     = (Returns (generateFallbackAnalysis ''Invalid drawing data provided''
                   ''2024-01-15T10:00:00.000Z''),
        sample_world None (fresh_day env_jan15)) \<and>
   analyzeMood test_env (sample_world None (fresh_day env_jan15)) (Some empty_export)
     = (Returns (generateFallbackAnalysis ''Invalid drawing data provided''
                   ''2024-01-15T10:00:00.000Z''),
        sample_world None (fresh_day env_jan15)) \<and>
   fst (analyzeMood test_env (sample_world None exhausted_openai) (Some sample_export))
     = Throws ''Daily OpenAI quota exceeded (50/50). Please try again tomorrow.''"
proof (intro conjI)
  show "analyzeMood test_env (sample_world None (fresh_day env_jan15)) None
     = (Returns (generateFallbackAnalysis ''Invalid drawing data provided''
                   ''2024-01-15T10:00:00.000Z''),
        sample_world None (fresh_day env_jan15))"
    by (simp add: analysis_run_defs limiter_run_defs)
  show "analyzeMood test_env (sample_world None (fresh_day env_jan15)) (Some empty_export)
     = (Returns (generateFallbackAnalysis ''Invalid drawing data provided''
                   ''2024-01-15T10:00:00.000Z''),
        sample_world None (fresh_day env_jan15))"
    by (simp add: analysis_run_defs limiter_run_defs empty_export_def)
  show "fst (analyzeMood test_env (sample_world None exhausted_openai) (Some sample_export))
     = Throws ''Daily OpenAI quota exceeded (50/50). Please try again tomorrow.''"
    by (simp add: analysis_run_defs exhausted_openai_def jan15_record_def default_quota_defs
        quota_exceeded_message_def show_int_def digit_char_def)
qed

text \<open>
  Claim C8 as stated fails: the \<open>catch\<close> recognizes quota exhaustion by the text
  \<open>quota exceeded\<close> in the error message.  With quota available, a classifier call that
  fails with HTTP status 503 and the server message \<open>upstream storage quota exceeded\<close>
  makes \<open>analyzeMood\<close> reject instead of returning the fallback.
\<close>

theorem marked_classifier_failure_rethrown:
  "service_of (fresh_day env_jan15) ''openai'' = Some \<lparr>used = 0, limit = 50\<rparr> \<and>
   fst (analyzeMood (api_env http_quota_reply)
          (sample_world (Some ''sk-test'') (fresh_day env_jan15)) (Some sample_export))
     = Throws ''OpenAI API error: 503 - upstream storage quota exceeded''"
  by (simp add: analysis_run_defs limiter_run_defs service_of_def sample_export_def
      classify_def callOpenAIAPI_def http_quota_reply_def failure_message_def digit_char_def)

text \<open>
  Claim C8, amended.  Take a call that reaches the classifier: the service is initialized
  and has an API key, the build is not a development build, the limiter has classifier
  quota left, the drawing data has a \<open>dataUrl\<close>, and the result is not cached.  If the
  classifier call fails and the message of the failure does not contain the text
  \<open>quota exceeded\<close>, then \<open>analyzeMood\<close> returns, and what it returns is the fallback
  analysis: primary mood \<open>calm\<close>, confidence 0.5, \<open>metadata.isFallback\<close> set, the
  failure's message in \<open>metadata.error\<close>; the state is left as it was.
\<close>

theorem classifier_failure_gives_fallback:
  assumes "isInitialized (moodAnalysisService w)"
    and "truthy_string (apiKey (moodAnalysisService w))"
    and "isDevelopment env = Returns False"
    and "initialized (limiter (stores w))"
    and "service_of (limiter (stores w)) ''openai'' = Some sq"
    and "used sq < limit sq"
    and "truthy_string (dataUrl exported)"
    and "analysisCache (moodAnalysisService w) (generateCacheKey (the (dataUrl exported)))
           = None"
    and "classifierReply env = Failure f"
    and "\<not> string_includes (failure_message f) ''quota exceeded''"
  shows "analyzeMood env w (Some exported)
           = (Returns (generateFallbackAnalysis (failure_message f)
                         (nowISO (storageEnv env))), w) \<and>
         primaryMood (generateFallbackAnalysis (failure_message f)
                        (nowISO (storageEnv env))) = ''calm'' \<and>
         confidence (generateFallbackAnalysis (failure_message f)
                       (nowISO (storageEnv env))) = 0.5 \<and>
         is_fallback (generateFallbackAnalysis (failure_message f)
                        (nowISO (storageEnv env))) \<and>
         map_option error (metadata (generateFallbackAnalysis (failure_message f)
                                       (nowISO (storageEnv env))))
           = Some (Some (failure_message f))"
proof -
  from getAllQuotas_initialized [OF assms(4,5)]
  obtain quotaInfo where
    g: "getAllQuotas (clock (storageEnv env)) (limiter (stores w))
          = (Returns quotaInfo, limiter (stores w))"
    and e: "entries quotaInfo ''openai'' = Some (quota_info_of sq)" by blast
  have c: "classify env w = (Throws (failure_message f), w)"
    using assms(2,3,9) by (simp add: classify_def callOpenAIAPI_def)
  have a: "analyze_attempt env w (Some exported) = (Throws (failure_message f), w)"
    using assms(6,7,8) e
    by (simp add: analyze_attempt_def checkQuota_initialized [OF assms(4,5)] g c)
  have "analyzeMood env w (Some exported)
          = (Returns (generateFallbackAnalysis (failure_message f)
                        (nowISO (storageEnv env))), w)"
    using assms(1,10) by (simp add: analyzeMood_def a)
  then show ?thesis by (simp add: generateFallbackAnalysis_def is_fallback_def)
qed

theorem classifier_failure_gives_fallback_witness:
  "isInitialized (moodAnalysisService (sample_world (Some ''sk-test'') (fresh_day env_jan15))) \<and>
   classifierReply (api_env non_json_reply) = Failure non_json_failure \<and>
   failure_message non_json_failure
     = ''Failed to parse mood analysis response: '' @
       ''Unexpected token 'I', \"I see a calm drawing\" is not valid JSON'' \<and>
   analyzeMood (api_env non_json_reply)
       (sample_world (Some ''sk-test'') (fresh_day env_jan15)) (Some sample_export)
     = (Returns (generateFallbackAnalysis (failure_message non_json_failure)
                   (nowISO (storageEnv (api_env non_json_reply)))),
        sample_world (Some ''sk-test'') (fresh_day env_jan15)) \<and>
   is_fallback (generateFallbackAnalysis (failure_message non_json_failure)
                  (nowISO (storageEnv (api_env non_json_reply))))"
proof -
  let ?w = "sample_world (Some ''sk-test'') (fresh_day env_jan15)"
  let ?env = "api_env non_json_reply"
  have 1: "isInitialized (moodAnalysisService ?w)" by (simp add: sample_world_def)
  have 2: "truthy_string (apiKey (moodAnalysisService ?w))"
    by (simp add: sample_world_def truthy_string_def)
  have 3: "isDevelopment ?env = Returns False" by (simp add: api_env_def)
  have 4: "initialized (limiter (stores ?w))" by (simp add: sample_world_def fresh_day_def)
  have 5: "service_of (limiter (stores ?w)) ''openai'' = Some \<lparr>used = 0, limit = 50\<rparr>"
    by (simp add: sample_world_def fresh_day_openai)
  have 6: "used \<lparr>used = 0, limit = 50\<rparr> < limit \<lparr>used = 0, limit = 50\<rparr>" by simp
  have 7: "truthy_string (dataUrl sample_export)"
    by (simp add: sample_export_def truthy_string_def)
  have 8: "analysisCache (moodAnalysisService ?w)
             (generateCacheKey (the (dataUrl sample_export))) = None"
    by (simp add: sample_world_def)
  have 9: "classifierReply ?env = Failure non_json_failure"
    by (simp add: api_env_def non_json_reply_def)
  have m: "failure_message non_json_failure
     = ''Failed to parse mood analysis response: '' @
       ''Unexpected token 'I', \"I see a calm drawing\" is not valid JSON''"
    by (simp add: failure_message_def non_json_failure_def parse_problem_message_def)
  have 10: "\<not> string_includes (failure_message non_json_failure) ''quota exceeded''"
    unfolding m by simp
  from classifier_failure_gives_fallback [OF 1 2 3 4 5 6 7 8 9 10] 1 9 m
  show ?thesis by blast
qed

end
